theory Spec2Isabelle
  imports Main
begin

section \<open>JavaScript values used by the servers\<close>

text \<open>
  Paths, socket ids and form fields are JavaScript strings. A form field or payload
  property that may be \<open>undefined\<close> is a \<open>string option\<close>. \<open>truthy\<close> is JavaScript's
  truthiness on such a value: \<open>undefined\<close> and the empty string are falsy.
\<close>

type_synonym path = string

definition truthy :: "string option \<Rightarrow> bool" where
  "truthy v = (case v of None \<Rightarrow> False | Some s \<Rightarrow> s \<noteq> [])"

text \<open>\<open>v || d\<close> on a possibly undefined string.\<close>

definition or_default :: "string option \<Rightarrow> string \<Rightarrow> string" where
  "or_default v d = (case v of None \<Rightarrow> d | Some s \<Rightarrow> if s = [] then d else s)"

text \<open>
  \<open>path.join(dir, file)\<close> for a directory that is already resolved and a plain file
  name (no normalisation of \<open>..\<close> or doubled separators is needed for such arguments).
\<close>

definition path_join :: "path \<Rightarrow> string \<Rightarrow> path" where
  "path_join dir file = dir @ ''/'' @ file"

section \<open>File lifecycle manager (server.js and server2.js)\<close>

text \<open>
  \<open>fs.Stats\<close> as far as the servers read it, and the disk as a map from paths to stats.
  \<open>fs.existsSync p\<close> is \<open>disk p \<noteq> None\<close>.
\<close>

record stats =
  isFile :: bool
  size :: nat
  mtimeMs :: nat
  ctimeMs :: nat

text \<open>
  The state the lifecycle code touches: the disk, the \<open>deletionTimers\<close> Map (path to
  timer handle), the timeouts that \<open>setTimeout\<close> has registered and that have not fired
  (handle, path, due time), the paths whose \<open>fs.unlink\<close> has been issued by a fired
  timer and whose callback has not run yet, and the next fresh timer handle.
\<close>

record lifecycle =
  disk :: "path \<rightharpoonup> stats"
  deletionTimers :: "path \<rightharpoonup> nat"
  timeouts :: "(nat \<times> path \<times> nat) list"
  unlinking :: "path list"
  nextHandle :: nat

definition timeout_path :: "nat \<times> path \<times> nat \<Rightarrow> path" where
  "timeout_path t = fst (snd t)"

definition initial :: "(path \<rightharpoonup> stats) \<Rightarrow> lifecycle" where
  "initial d = \<lparr>disk = d, deletionTimers = Map.empty, timeouts = [], unlinking = [],
     nextHandle = 0\<rparr>"

text \<open>
  \<open>scheduleDeletion(filePath, ttl)\<close>: return on a falsy path, on a path that is already a
  key of \<open>deletionTimers\<close>, and on a path that does not exist; otherwise register a timeout
  due at \<open>now + ttl\<close> and store its handle under the path.
\<close>

definition scheduleDeletion :: "nat \<Rightarrow> nat \<Rightarrow> path \<Rightarrow> lifecycle \<Rightarrow> lifecycle" where
  "scheduleDeletion ttl now filePath s =
     (if filePath = [] then s
      else if deletionTimers s filePath \<noteq> None then s
      else if disk s filePath = None then s
      else s\<lparr>timeouts := timeouts s @ [(nextHandle s, filePath, now + ttl)],
             deletionTimers := (deletionTimers s)(filePath \<mapsto> nextHandle s),
             nextHandle := Suc (nextHandle s)\<rparr>)"

text \<open>
  The timeout with handle \<open>h\<close> fires (not before it is due): it leaves the pending
  timeouts and issues \<open>fs.unlink\<close>, which removes the file if it is there.
\<close>

definition timerFires :: "nat \<Rightarrow> nat \<Rightarrow> lifecycle \<Rightarrow> lifecycle" where
  "timerFires now h s =
     (case filter (\<lambda>t. fst t = h \<and> snd (snd t) \<le> now) (timeouts s) of
        [] \<Rightarrow> s
      | t # _ \<Rightarrow> s\<lparr>timeouts := filter (\<lambda>u. fst u \<noteq> h) (timeouts s),
                   disk := (disk s)(timeout_path t := None),
                   unlinking := unlinking s @ [timeout_path t]\<rparr>)"

text \<open>
  The callback of that \<open>fs.unlink\<close>: whether or not the delete succeeded, the path is
  removed from \<open>deletionTimers\<close>.
\<close>

definition unlinkCallback :: "path \<Rightarrow> lifecycle \<Rightarrow> lifecycle" where
  "unlinkCallback p s =
     (if p \<in> set (unlinking s)
      then s\<lparr>unlinking := remove1 p (unlinking s),
             deletionTimers := (deletionTimers s)(p := None)\<rparr>
      else s)"

text \<open>
  The age test of \<open>scanAndCleanup\<close>: a regular file whose age, measured from the later
  of its modification and change times, is greater than the TTL. The subtraction is
  JavaScript's, so it may be negative.
\<close>

definition age :: "nat \<Rightarrow> stats \<Rightarrow> int" where
  "age now st = int now - int (max (mtimeMs st) (ctimeMs st))"

definition expired :: "nat \<Rightarrow> nat \<Rightarrow> stats \<Rightarrow> bool" where
  "expired ttl now st = (isFile st \<and> age now st > int ttl)"

text \<open>
  One entry of the directory listing: \<open>stat\<close> it (a failing \<open>stat\<close> skips the entry),
  and unlink it when it is expired and its path is not a key of \<open>deletionTimers\<close>. The
  unlink of a file that is on disk removes it; an unlink that the operating system refuses
  is only logged by the servers and is not part of this model.
\<close>

definition cleanupEntry :: "nat \<Rightarrow> nat \<Rightarrow> path \<Rightarrow> string \<Rightarrow> lifecycle \<Rightarrow> lifecycle" where
  "cleanupEntry ttl now dir file s =
     (let filePath = path_join dir file in
      case disk s filePath of
        None \<Rightarrow> s
      | Some st \<Rightarrow>
          if expired ttl now st
          then (if deletionTimers s filePath = None
                then s\<lparr>disk := (disk s)(filePath := None)\<rparr>
                else s)
          else s)"

text \<open>
  \<open>scanAndCleanup(dir)\<close>, with \<open>files\<close> the names \<open>readdir\<close> returned and \<open>now\<close> the
  value of \<open>Date.now()\<close> taken once before the entries are visited.
\<close>

definition scanAndCleanup :: "nat \<Rightarrow> nat \<Rightarrow> path \<Rightarrow> string list \<Rightarrow> lifecycle \<Rightarrow> lifecycle" where
  "scanAndCleanup ttl now dir files s = fold (cleanupEntry ttl now dir) files s"

text \<open>
  One run of the periodic sweep: the uploads directory, then the outputs directory.
\<close>

definition sweep ::
  "nat \<Rightarrow> nat \<Rightarrow> path \<Rightarrow> string list \<Rightarrow> path \<Rightarrow> string list \<Rightarrow> lifecycle \<Rightarrow> lifecycle" where
  "sweep ttl now uploadDir ufiles outputsDir ofiles s =
     scanAndCleanup ttl now outputsDir ofiles (scanAndCleanup ttl now uploadDir ufiles s)"

text \<open>
  Everything that can happen to the lifecycle state while a server runs (a call of
  \<open>scheduleDeletion\<close>, a timer firing, the callback of its unlink, a file written or
  removed by a route, an engine or anyone else, a scan of a directory), and the state
  after a sequence of such events.
\<close>

datatype lifecycle_event =
    Schedule nat path
  | TimerFires nat nat
  | UnlinkCallback path
  | FileWritten path stats
  | FileRemoved path
  | Scan nat path "string list"

fun step :: "nat \<Rightarrow> lifecycle_event \<Rightarrow> lifecycle \<Rightarrow> lifecycle" where
  "step ttl (Schedule now p) s = scheduleDeletion ttl now p s"
| "step ttl (TimerFires now h) s = timerFires now h s"
| "step ttl (UnlinkCallback p) s = unlinkCallback p s"
| "step ttl (FileWritten p st) s = s\<lparr>disk := (disk s)(p \<mapsto> st)\<rparr>"
| "step ttl (FileRemoved p) s = s\<lparr>disk := (disk s)(p := None)\<rparr>"
| "step ttl (Scan now dir files) s = scanAndCleanup ttl now dir files s"

definition run :: "nat \<Rightarrow> lifecycle_event list \<Rightarrow> lifecycle \<Rightarrow> lifecycle" where
  "run ttl evs s = fold (step ttl) evs s"

text \<open>
  The invariant behind idempotent scheduling: the paths with a pending timeout or an
  unlink in flight are pairwise different, and all of them are keys of \<open>deletionTimers\<close>.
\<close>

definition outstanding :: "lifecycle \<Rightarrow> path list" where
  "outstanding s = map timeout_path (timeouts s) @ unlinking s"

definition timers_ok :: "lifecycle \<Rightarrow> bool" where
  "timers_ok s = (distinct (outstanding s) \<and> list_all (\<lambda>p. deletionTimers s p \<noteq> None) (outstanding s)
     \<and> list_all (\<lambda>t. fst t < nextHandle s) (timeouts s) \<and> distinct (map fst (timeouts s)))"

text \<open>
  A deletion of \<open>p\<close> is pending with due time \<open>due\<close> when a timeout for that path and
  time has been registered and has not fired.
\<close>

definition pending :: "lifecycle \<Rightarrow> path \<Rightarrow> nat \<Rightarrow> bool" where
  "pending s p due = ((p, due) \<in> set (map snd (timeouts s)))"

text \<open>
  The converse of the inclusion in \<open>timers_ok\<close>: every key of \<open>deletionTimers\<close> has a
  pending timeout or an unlink in flight.
\<close>

definition keys_ok :: "lifecycle \<Rightarrow> bool" where
  "keys_ok s = (\<forall>p. deletionTimers s p \<noteq> None \<longrightarrow> p \<in> set (outstanding s))"

section \<open>Strings and numbers as the servers print them\<close>

text \<open>\<open>s.slice(0, n)\<close>: the first \<open>n\<close> characters, or all of \<open>s\<close> when it is shorter.\<close>

definition slice :: "nat \<Rightarrow> string \<Rightarrow> string" where
  "slice n s = take n s"

text \<open>
  \<open>s.trim()\<close> on the ASCII white space (space, tab, line feed, vertical tab, form feed,
  carriage return).
\<close>

definition is_space :: "char \<Rightarrow> bool" where
  "is_space c = (c \<in> set [CHR '' '', CHR 0x09, CHR 0x0A, CHR 0x0B, CHR 0x0C, CHR 0x0D])"

definition trim :: "string \<Rightarrow> string" where
  "trim s = rev (dropWhile is_space (rev (dropWhile is_space s)))"

text \<open>\<open>s.toLowerCase()\<close> on ASCII letters.\<close>

definition lower_char :: "char \<Rightarrow> char" where
  "lower_char c =
     (case map_of (zip ''ABCDEFGHIJKLMNOPQRSTUVWXYZ'' ''abcdefghijklmnopqrstuvwxyz'') c of
        None \<Rightarrow> c | Some d \<Rightarrow> d)"

definition toLowerCase :: "string \<Rightarrow> string" where
  "toLowerCase s = map lower_char s"

text \<open>
  A number inside a template literal: \<open>Date.now()\<close> is a natural number, an exit code
  is an integer or \<open>null\<close> (the process was ended by a signal).
\<close>

definition digit :: "nat \<Rightarrow> char" where
  "digit d = ''0123456789'' ! (d mod 10)"

fun show_nat :: "nat \<Rightarrow> string" where
  "show_nat n = (if n < 10 then [digit n] else show_nat (n div 10) @ [digit n])"

declare show_nat.simps [simp del]

definition show_code :: "int option \<Rightarrow> string" where
  "show_code c =
     (case c of
        None \<Rightarrow> ''null''
      | Some i \<Rightarrow> if i < 0 then ''-'' @ show_nat (nat (- i)) else show_nat (nat i))"

text \<open>A possibly undefined string inside a template literal.\<close>

definition render :: "string option \<Rightarrow> string" where
  "render v = (case v of None \<Rightarrow> ''undefined'' | Some s \<Rightarrow> s)"

text \<open>
  Object literals keep their properties in order; a property that is not listed is absent.
  What is sent to a socket room is a string or an object.
\<close>

datatype jsval = JStr string | JNum int | JNull

type_synonym jsobj = "(string \<times> jsval) list"

datatype payload = Text string | Object jsobj

type_synonym emission = "string \<times> string \<times> payload"

text \<open>
  What one run of the external engine shows to its parent, for a process that was
  spawned: the chunks of its standard output and standard error, and its exit code.
\<close>

record engine_run =
  stdoutChunks :: "string list"
  stderrChunks :: "string list"
  exitCode :: "int option"

text \<open>\<open>if (socketId) io.to(socketId).emit(event, payload)\<close>.\<close>

definition io_emit :: "string option \<Rightarrow> string \<Rightarrow> payload \<Rightarrow> emission list \<Rightarrow> emission list" where
  "io_emit sid ev pl es =
     (case sid of None \<Rightarrow> es | Some r \<Rightarrow> if r = [] then es else es @ [(r, ev, pl)])"

text \<open>
  Socket.IO delivers an emission to the sockets that are in its room, and every connected
  socket is in the room named by its own id: with no such socket the emission is dropped.
\<close>

definition deliver :: "string list \<Rightarrow> emission list \<Rightarrow> emission list" where
  "deliver connected es = filter (\<lambda>e. fst e \<in> set connected) es"

section \<open>The direct execution engine (server.js)\<close>

record options =
  script :: string
  args :: "string list"
  socketId :: "string option"
  inputPaths :: "path list"
  outputFilename :: string

text \<open>
  The server as \<open>executeTask\<close> sees it: the lifecycle state, what has been emitted to
  socket rooms, and the HTTP response of the request once it has been sent.
\<close>

record server =
  cleanup :: lifecycle
  emitted :: "emission list"
  response :: "(nat \<times> jsobj) option"

text \<open>\<open>if (!res.headersSent) res.status(code).json(obj)\<close>.\<close>

definition send :: "nat \<times> jsobj \<Rightarrow> (nat \<times> jsobj) option \<Rightarrow> (nat \<times> jsobj) option" where
  "send r sent = (case sent of None \<Rightarrow> Some r | Some r0 \<Rightarrow> Some r0)"

text \<open>The handler of one chunk of standard output.\<close>

definition onStdout :: "string option \<Rightarrow> string \<Rightarrow> emission list \<Rightarrow> emission list" where
  "onStdout sid chunk es =
     (let msg = trim chunk in
      if msg = [] then es else io_emit sid ''conversion-status'' (Text msg) es)"

definition jsCode :: "int option \<Rightarrow> jsval" where
  "jsCode c = (case c of None \<Rightarrow> JNull | Some i \<Rightarrow> JNum i)"

text \<open>
  The handler of \<open>close\<close>: schedule every input path, then branch on the exit code.
  \<open>now\<close> is the time of the event and \<open>stderrBuf\<close> the standard error collected so far.
\<close>

definition onClose ::
  "nat \<Rightarrow> nat \<Rightarrow> path \<Rightarrow> options \<Rightarrow> string \<Rightarrow> int option \<Rightarrow> server \<Rightarrow> server" where
  "onClose ttl now uploadDir opts stderrBuf code srv =
     (let outputPath = path_join uploadDir (outputFilename opts);
          s1 = fold (scheduleDeletion ttl now) (inputPaths opts) (cleanup srv)
      in if code = Some 0
         then (let fileSize = (case disk s1 outputPath of None \<Rightarrow> 0 | Some st \<Rightarrow> size st);
                   responseData = [(''status'', JStr ''success''),
                                   (''downloadUrl'', JStr (''/download/'' @ outputFilename opts)),
                                   (''fileSize'', JNum (int fileSize))]
               in srv\<lparr>emitted := io_emit (socketId opts) ''conversion-finished''
                                     (Object responseData) (emitted srv),
                       cleanup := scheduleDeletion ttl now outputPath s1,
                       response := send (200, responseData) (response srv)\<rparr>)
         else (let details = (if stderrBuf = [] then ''No stderr output captured.'' else stderrBuf);
                   s2 = (if disk s1 outputPath \<noteq> None
                         then scheduleDeletion ttl now outputPath s1 else s1)
               in srv\<lparr>cleanup := s2,
                       emitted := io_emit (socketId opts) ''conversion-error''
                                     (Text (''Engine failed to process. Details: '' @ slice 1000 details))
                                     (emitted srv),
                       response := send (500, [(''error'', JStr ''Processing failed''),
                                               (''code'', jsCode code),
                                               (''details'', JStr (slice 2000 details))])
                                     (response srv)\<rparr>))"

text \<open>
  \<open>executeTask(res, options)\<close> for an engine that was spawned: its output chunks in
  order, then \<open>close\<close>. The disk of \<open>srv\<close> is the disk as the engine left it.
\<close>

definition executeTask ::
  "nat \<Rightarrow> nat \<Rightarrow> path \<Rightarrow> options \<Rightarrow> engine_run \<Rightarrow> server \<Rightarrow> server" where
  "executeTask ttl now uploadDir opts r srv =
     onClose ttl now uploadDir opts (concat (stderrChunks r)) (exitCode r)
       (srv\<lparr>emitted := fold (onStdout (socketId opts)) (stdoutChunks r) (emitted srv)\<rparr>)"

text \<open>
  A request after multer: the stored upload, if any, and the form fields. The routes
  either answer at once (\<open>Inl\<close>) or call \<open>executeTask\<close> with the options they built
  (\<open>Inr\<close>); \<open>ts\<close> is \<open>Date.now()\<close> in the route. Multer stores uploads under the resolved
  upload directory, so \<open>path.resolve\<close> leaves the stored path as it is.
\<close>

record upload =
  path :: path
  originalname :: string

record request =
  reqFile :: "upload option"
  reqBody :: "string \<rightharpoonup> string"

definition post_convert :: "path \<Rightarrow> nat \<Rightarrow> request \<Rightarrow> (nat \<times> jsobj) + options" where
  "post_convert uploadDir ts req =
     (case reqFile req of
        None \<Rightarrow> Inl (400, [(''error'', JStr ''No file uploaded'')])
      | Some f \<Rightarrow>
          (let tool = toLowerCase (or_default (reqBody req ''tool'') ''pdf2doc'');
               secretKey = or_default (reqBody req ''secretKey'') [];
               outName = ''converted_'' @ show_nat ts @ ''.docx''
           in if secretKey = []
              then Inl (400, [(''error'', JStr ''Missing encryption key'')])
              else Inr \<lparr>script = ''convert.py'',
                        args = [path f, tool, path_join uploadDir outName, secretKey],
                        socketId = reqBody req ''socketId'',
                        inputPaths = [path f],
                        outputFilename = outName\<rparr>))"

definition post_ocr_extract :: "path \<Rightarrow> nat \<Rightarrow> request \<Rightarrow> (nat \<times> jsobj) + options" where
  "post_ocr_extract uploadDir ts req =
     (case reqFile req of
        None \<Rightarrow> Inl (400, [(''error'', JStr ''No image provided'')])
      | Some f \<Rightarrow>
          (let outName = ''ocr_'' @ show_nat ts @ ''.txt''
           in Inr \<lparr>script = ''ocr_engine.py'',
                     args = [path f, path_join uploadDir outName],
                     socketId = reqBody req ''socketId'',
                     inputPaths = [path f],
                     outputFilename = outName\<rparr>))"

definition post_compress_pdf :: "path \<Rightarrow> nat \<Rightarrow> request \<Rightarrow> (nat \<times> jsobj) + options" where
  "post_compress_pdf uploadDir ts req =
     (case reqFile req of
        None \<Rightarrow> Inl (400, [(''error'', JStr ''No file uploaded'')])
      | Some f \<Rightarrow>
          (let outName = ''compressed_'' @ show_nat ts @ ''.pdf'';
               grayscale = or_default (reqBody req ''grayscale'') ''false'';
               dpi = or_default (reqBody req ''dpi'') ''150''
           in Inr \<lparr>script = ''compressor.py'',
                     args = [path f, path_join uploadDir outName, grayscale, ''true'', dpi],
                     socketId = reqBody req ''socketId'',
                     inputPaths = [path f],
                     outputFilename = outName\<rparr>))"

text \<open>The argv that \<open>spawn('python', [script, ...args])\<close> passes to the engine.\<close>

definition argv :: "options \<Rightarrow> string list" where
  "argv opts = ''python'' # script opts # args opts"

section \<open>The queued pipeline: gateway (server2.js), worker and event bridge\<close>

text \<open>
  A job of the conversion queue. \<open>job.data.x\<close> for a string property \<open>x\<close> is
  \<open>jobData j x\<close> (\<open>None\<close> when the property is undefined); the nested \<open>params\<close> object of a
  sign job and the \<open>inputPaths\<close> array of a merge job have fields of their own, and are
  taken to be present in such jobs, as the gateway always adds them.
\<close>

record job =
  jobId :: nat
  jobName :: string
  jobData :: "string \<rightharpoonup> string"
  jobParams :: "string \<rightharpoonup> string"
  jobInputPaths :: "string list"

text \<open>
  The gateway: the queue, the lifecycle state of its process and the id of the next job.
\<close>

record gateway =
  queue :: "job list"
  gcleanup :: lifecycle
  nextJobId :: nat

text \<open>
  \<open>conversionQueue.add(name, data)\<close> for a job whose data are string properties; a
  property whose value is undefined is not stored.
\<close>

definition queue_add :: "string \<Rightarrow> (string \<times> string option) list \<Rightarrow> gateway \<Rightarrow> gateway" where
  "queue_add n props g =
     g\<lparr>queue := queue g @
           [\<lparr>jobId = nextJobId g, jobName = n,
             jobData = map_of (concat (map (\<lambda>(k, v). case v of None \<Rightarrow> [] | Some s \<Rightarrow> [(k, s)]) props)),
             jobParams = Map.empty, jobInputPaths = []\<rparr>],
       nextJobId := Suc (nextJobId g)\<rparr>"

definition queued :: "nat \<times> jsobj" where
  "queued = (200, [(''status'', JStr ''queued''), (''message'', JStr ''Queued...'')])"

text \<open>
  The queued routes: without a file they answer 400; otherwise they add the job, schedule
  the upload for deletion and answer "queued".
\<close>

definition queued_post_convert ::
  "nat \<Rightarrow> nat \<Rightarrow> request \<Rightarrow> gateway \<Rightarrow> (nat \<times> jsobj) \<times> gateway" where
  "queued_post_convert ttl now req g =
     (case reqFile req of
        None \<Rightarrow> ((400, [(''error'', JStr ''No file'')]), g)
      | Some f \<Rightarrow>
          (let g1 = queue_add ''pdf-to-doc''
                      [(''inputPath'', Some (path f)),
                       (''tool'', Some (toLowerCase (or_default (reqBody req ''tool'') ''pdf2doc''))),
                       (''secretKey'', Some (or_default (reqBody req ''secretKey'') [])),
                       (''socketId'', reqBody req ''socketId'')] g
           in (queued, g1\<lparr>gcleanup := scheduleDeletion ttl now (path f) (gcleanup g1)\<rparr>)))"


definition queued_post_compress_pdf ::
  "nat \<Rightarrow> nat \<Rightarrow> request \<Rightarrow> gateway \<Rightarrow> (nat \<times> jsobj) \<times> gateway" where
  "queued_post_compress_pdf ttl now req g =
     (case reqFile req of
        None \<Rightarrow> ((400, [(''error'', JStr ''No file'')]), g)
      | Some f \<Rightarrow>
          (let g1 = queue_add ''compress-pdf''
                      [(''inputPath'', Some (path f)),
                       (''socketId'', reqBody req ''socketId''),
                       (''grayscale'', Some (or_default (reqBody req ''grayscale'') ''false'')),
                       (''dpi'', Some (or_default (reqBody req ''dpi'') ''150''))] g
           in (queued, g1\<lparr>gcleanup := scheduleDeletion ttl now (path f) (gcleanup g1)\<rparr>)))"

text \<open>
  \<open>conversionQueue.add(name, data)\<close> for a job that also carries a \<open>params\<close> object or
  an \<open>inputPaths\<close> array.
\<close>

definition queue_add_with ::
  "string \<Rightarrow> (string \<times> string option) list \<Rightarrow> (string \<rightharpoonup> string) \<Rightarrow> string list
     \<Rightarrow> gateway \<Rightarrow> gateway" where
  "queue_add_with n props ps paths g =
     g\<lparr>queue := queue g @
           [\<lparr>jobId = nextJobId g, jobName = n,
             jobData = map_of (concat (map (\<lambda>(k, v). case v of None \<Rightarrow> [] | Some s \<Rightarrow> [(k, s)]) props)),
             jobParams = ps, jobInputPaths = paths\<rparr>],
       nextJobId := Suc (nextJobId g)\<rparr>"














subsection \<open>The worker\<close>

text \<open>
  The regular expression \<open>/won in ([\d\.]+)s/\<close>. \<open>match_here\<close> matches it at the start
  of a string: the literal, then the longest run of digits and dots, which must not be
  empty and must be followed by \<open>s\<close> (a shorter run is followed by a digit or a dot, so
  backtracking finds nothing more). \<open>match_duration\<close> is \<open>String.prototype.match\<close>:
  the group of the leftmost match.
\<close>

definition is_num_char :: "char \<Rightarrow> bool" where
  "is_num_char c = (c \<in> set ''0123456789.'')"

definition match_here :: "string \<Rightarrow> string option" where
  "match_here s =
     (if take 7 s = ''won in ''
      then (let d = takeWhile is_num_char (drop 7 s) in
            if d \<noteq> [] \<and> take 1 (drop (7 + length d) s) = ''s'' then Some d else None)
      else None)"

fun match_duration :: "string \<Rightarrow> string option" where
  "match_duration [] = None"
| "match_duration (c # cs) =
     (case match_here (c # cs) of Some d \<Rightarrow> Some d | None \<Rightarrow> match_duration cs)"

text \<open>What \<open>job.updateProgress\<close> and the processor's return value carry.\<close>

datatype progress_data = ProgressData (pd_message: string) (pd_socketId: "string option")

datatype returnvalue = ReturnValue (rv_socketId: "string option") (rv_result: jsobj)

text \<open>
  \<open>path.basename\<close> of an undefined argument throws this TypeError; inside the promise
  executor of \<open>runPython\<close> that rejects the promise before anything is spawned.
\<close>

definition basename_type_error :: string where
  "basename_type_error = ''The \"path\" argument must be of type string. Received undefined''"

text \<open>
  \<open>runPython(scriptName, args, job, socketId)\<close> for an engine that was spawned: the
  progress updates of the output chunks, and the settled promise (\<open>Inl\<close> the message of
  the error it rejects with, \<open>Inr\<close> the object it resolves to).
\<close>

definition onData :: "string option \<Rightarrow> string \<Rightarrow> progress_data list" where
  "onData sid msg = (let trimmed = trim msg in if trimmed = [] then [] else [ProgressData trimmed sid])"

definition runPython ::
  "string \<Rightarrow> string option list \<Rightarrow> string option \<Rightarrow> engine_run
     \<Rightarrow> progress_data list \<times> (string + jsobj)" where
  "runPython scriptName as sid r =
     (if None \<in> set as then ([], Inl basename_type_error)
      else (let fullOutput = concat (stdoutChunks r);
                stderrOutput = concat (stderrChunks r)
            in (concat (map (onData sid) (stdoutChunks r)),
                if exitCode r = Some 0
                then Inr [(''duration'',
                           JStr (case match_duration fullOutput of Some d \<Rightarrow> d | None \<Rightarrow> ''0.00''))]
                else Inl (''Exit code '' @ show_code (exitCode r) @ '': '' @ slice 200 stderrOutput))))"

text \<open>
  The job routing table: script, arguments and output file name for a job name, \<open>None\<close>
  for a name that is not in the table. \<open>now\<close> is \<open>Date.now()\<close>.
\<close>

definition routing :: "path \<Rightarrow> nat \<Rightarrow> job \<Rightarrow> (string \<times> string option list \<times> string) option" where
  "routing uploadDir now j =
     (let inputPath = jobData j ''inputPath'';
          out = (\<lambda>f. Some (path_join uploadDir f));
          stamp = show_nat now
      in if jobName j = ''word-to-pdf''
           then Some (''word_to_pdf.py'', [inputPath, out (''word_'' @ stamp @ ''.pdf'')],
                      ''word_'' @ stamp @ ''.pdf'')
         else if jobName j = ''pdf-to-doc''
           then Some (''convert.py'',
                      [inputPath, jobData j ''tool'', out (''converted_'' @ stamp @ ''.docx''),
                       jobData j ''secretKey''],
                      ''converted_'' @ stamp @ ''.docx'')
         else if jobName j = ''ppt-to-pdf''
           then Some (''ppt_to_pdf.py'', [inputPath, out (''ppt_'' @ stamp @ ''.pdf'')],
                      ''ppt_'' @ stamp @ ''.pdf'')
         else if jobName j = ''image-to-pdf''
           then Some (''image_to_pdf.py'', [inputPath, out (''image_'' @ stamp @ ''.pdf'')],
                      ''image_'' @ stamp @ ''.pdf'')
         else if jobName j = ''ocr-extract''
           then Some (''ocr_engine.py'', [inputPath, out (''ocr_'' @ stamp @ ''.txt'')],
                      ''ocr_'' @ stamp @ ''.txt'')
         else if jobName j = ''compress-pdf''
           then Some (''compressor.py'',
                      [inputPath, out (''compressed_'' @ stamp @ ''.pdf''),
                       jobData j ''grayscale'', Some ''true'', jobData j ''dpi''],
                      ''compressed_'' @ stamp @ ''.pdf'')
         else if jobName j = ''compress-docx''
           then Some (''compress_docx.py'',
                      [inputPath, out (''compressed_'' @ stamp @ ''.docx''), jobData j ''level''],
                      ''compressed_'' @ stamp @ ''.docx'')
         else if jobName j = ''compress-image''
           then Some (''compress_image.py'',
                      [inputPath,
                       out (''compressed_'' @ stamp @ ''.'' @ render (jobData j ''ext'')),
                       jobData j ''level'', jobData j ''ext''],
                      ''compressed_'' @ stamp @ ''.'' @ render (jobData j ''ext''))
         else if jobName j = ''sign-pdf''
           then Some (''sign_pdf.py'',
                      [inputPath, out (''signed_'' @ stamp @ ''.pdf'')] @
                      map (jobParams j)
                        [''name'', ''pageRange'', ''x'', ''y'', ''fontSize'', ''textColor'',
                         ''fontStyle'', ''opacity''],
                      ''signed_'' @ stamp @ ''.pdf'')
         else if jobName j = ''merge-pdf''
           then Some (''merge_pdf.py'',
                      out (''merged_'' @ stamp @ ''.pdf'') # map Some (jobInputPaths j),
                      ''merged_'' @ stamp @ ''.pdf'')
         else None)"

text \<open>
  What the queue publishes: \<open>completed\<close> with the processor's return value, \<open>progress\<close>
  with the data of an update, \<open>failed\<close> with the message of the error thrown.
\<close>

datatype queue_event =
    Completed nat "returnvalue option"
  | Progress nat "progress_data option"
  | Failed nat string

text \<open>
  The worker's processor on one job, as the events it makes the queue publish: the
  progress updates, then either the completion or, from the catch branch, one more
  progress update with the error message before the failure. A job name outside the
  routing table fails before the try block.
\<close>

definition processor :: "path \<Rightarrow> nat \<Rightarrow> job \<Rightarrow> engine_run \<Rightarrow> queue_event list" where
  "processor uploadDir now j r =
     (let sid = jobData j ''socketId'' in
      case routing uploadDir now j of
        None \<Rightarrow> [Failed (jobId j) (''Unknown job type: '' @ jobName j)]
      | Some (scr, as, outName) \<Rightarrow>
          (case runPython scr as sid r of
             (updates, Inr res) \<Rightarrow>
               map (\<lambda>u. Progress (jobId j) (Some u)) updates @
               [Completed (jobId j)
                  (Some (ReturnValue sid
                     ([(''status'', JStr ''success''),
                       (''downloadUrl'', JStr (''/download/'' @ outName))] @
                      (case map_of res ''duration'' of None \<Rightarrow> [] | Some d \<Rightarrow> [(''duration'', d)]) @
                      [(''file'', JStr outName)])))]
           | (updates, Inl msg) \<Rightarrow>
               map (\<lambda>u. Progress (jobId j) (Some u)) updates @
               [Progress (jobId j) (Some (ProgressData (''Error: '' @ msg) sid)),
                Failed (jobId j) msg]))"

subsection \<open>The event bridge\<close>

text \<open>
  The three \<open>queueEvents\<close> listeners of server2.js, on what has been emitted to socket
  rooms and what has been written to the error console.
\<close>

record bridge =
  emits :: "emission list"
  consoleErrors :: "string list"

fun queueEvents_on :: "queue_event \<Rightarrow> bridge \<Rightarrow> bridge" where
  "queueEvents_on (Completed jid rv) b =
     (case rv of
        None \<Rightarrow> b
      | Some v \<Rightarrow> b\<lparr>emits := io_emit (rv_socketId v) ''conversion-finished''
                                (Object (rv_result v)) (emits b)\<rparr>)"
| "queueEvents_on (Progress jid d) b =
     (case d of
        None \<Rightarrow> b
      | Some v \<Rightarrow> b\<lparr>emits := io_emit (pd_socketId v) ''conversion-status''
                                (Text (pd_message v)) (emits b)\<rparr>)"
| "queueEvents_on (Failed jid failedReason) b =
     b\<lparr>consoleErrors := consoleErrors b @
         [''Job '' @ show_nat jid @ '' failed: '' @ failedReason]\<rparr>"

definition bridge_all :: "queue_event list \<Rightarrow> bridge \<Rightarrow> bridge" where
  "bridge_all evs b = fold queueEvents_on evs b"

subsection \<open>The gateway process\<close>




section \<open>Example inputs\<close>

text \<open>
  An upload with equal modification and change times; a file that is old by both times;
  a file whose content is old but whose inode changed just now (a copy that kept the
  modification time of its original).
\<close>

definition pdf_stats :: stats where
  "pdf_stats = \<lparr>isFile = True, size = 2048, mtimeMs = 1000, ctimeMs = 1000\<rparr>"

definition old_stats :: stats where
  "old_stats = \<lparr>isFile = True, size = 2048, mtimeMs = 0, ctimeMs = 0\<rparr>"

definition copied_stats :: stats where
  "copied_stats = \<lparr>isFile = True, size = 2048, mtimeMs = 0, ctimeMs = 1000000\<rparr>"

text \<open>
  The state after an upload was scheduled and its timer fired, before the callback of the
  unlink has run: the file is gone and its path is still a key of \<open>deletionTimers\<close>.
\<close>

definition fired_state :: lifecycle where
  "fired_state = run 300000 [Schedule 1000 ''/app/uploads/a.pdf'', TimerFires 301000 0]
                   (initial [''/app/uploads/a.pdf'' \<mapsto> pdf_stats])"

text \<open>
  The scenario of an OCR job whose engine cannot find tesseract: the request, the options
  the direct route builds from it at time 42, the job the queued route adds, the run of the
  engine, and a disk that holds the upload (and one that also holds a partial output).
\<close>

definition ocr_request :: request where
  "ocr_request = \<lparr>reqFile = Some \<lparr>path = ''/app/uploads/1-scan.png'', originalname = ''scan.png''\<rparr>,
                   reqBody = [''socketId'' \<mapsto> ''abc'']\<rparr>"

definition ocr_options :: options where
  "ocr_options = \<lparr>script = ''ocr_engine.py'',
                   args = [''/app/uploads/1-scan.png'', ''/app/uploads/ocr_42.txt''],
                   socketId = Some ''abc'',
                   inputPaths = [''/app/uploads/1-scan.png''],
                   outputFilename = ''ocr_42.txt''\<rparr>"

definition ocr_job :: job where
  "ocr_job = \<lparr>jobId = 7, jobName = ''ocr-extract'',
               jobData = [''inputPath'' \<mapsto> ''/app/uploads/1-scan.png'', ''socketId'' \<mapsto> ''abc''],
               jobParams = Map.empty, jobInputPaths = []\<rparr>"

definition tesseract_missing :: engine_run where
  "tesseract_missing = \<lparr>stdoutChunks = [], stderrChunks = [''tesseract not found''],
                         exitCode = Some 1\<rparr>"

definition ocr_disk :: "path \<rightharpoonup> stats" where
  "ocr_disk = [''/app/uploads/1-scan.png'' \<mapsto> pdf_stats]"

definition ocr_partial_disk :: "path \<rightharpoonup> stats" where
  "ocr_partial_disk = [''/app/uploads/1-scan.png'' \<mapsto> pdf_stats,
                       ''/app/uploads/ocr_42.txt'' \<mapsto> pdf_stats]"

definition idle_server :: "(path \<rightharpoonup> stats) \<Rightarrow> server" where
  "idle_server d = \<lparr>cleanup = initial d, emitted = [], response = None\<rparr>"

definition idle_gateway :: "(path \<rightharpoonup> stats) \<Rightarrow> gateway" where
  "idle_gateway d = \<lparr>queue = [], gcleanup = initial d, nextJobId = 7\<rparr>"

text \<open>
  A compression job as the queued route adds it, and two runs of the engine that exit with
  code 0: one that prints the duration token and one that does not.
\<close>

definition compress_job :: job where
  "compress_job = \<lparr>jobId = 7, jobName = ''compress-pdf'',
                    jobData = [''inputPath'' \<mapsto> ''/app/uploads/1-a.pdf'', ''socketId'' \<mapsto> ''abc'',
                               ''grayscale'' \<mapsto> ''true'', ''dpi'' \<mapsto> ''100''],
                    jobParams = Map.empty, jobInputPaths = []\<rparr>"

definition timed_run :: engine_run where
  "timed_run = \<lparr>stdoutChunks = [''Compressing'', ''won in 0.5s''], stderrChunks = [],
                 exitCode = Some 0\<rparr>"

definition silent_run :: engine_run where
  "silent_run = \<lparr>stdoutChunks = [''Compressing''], stderrChunks = [], exitCode = Some 0\<rparr>"

definition idle_bridge :: bridge where
  "idle_bridge = \<lparr>emits = [], consoleErrors = []\<rparr>"

text \<open>
  The compression request of the scenario, and a request for the conversion of a PDF with
  an empty \<open>secretKey\<close> field.
\<close>

definition compress_request :: request where
  "compress_request =
     \<lparr>reqFile = Some \<lparr>path = ''/app/uploads/1-a.pdf'', originalname = ''a.pdf''\<rparr>,
      reqBody = [''socketId'' \<mapsto> ''abc'', ''grayscale'' \<mapsto> ''true'', ''dpi'' \<mapsto> ''100'']\<rparr>"

definition bare_compress_request :: request where
  "bare_compress_request =
     \<lparr>reqFile = Some \<lparr>path = ''/app/uploads/1-a.pdf'', originalname = ''a.pdf''\<rparr>,
      reqBody = [''socketId'' \<mapsto> ''abc'']\<rparr>"

definition keyless_request :: request where
  "keyless_request =
     \<lparr>reqFile = Some \<lparr>path = ''/app/uploads/1-a.pdf'', originalname = ''a.pdf''\<rparr>,
      reqBody = [''socketId'' \<mapsto> ''abc'', ''secretKey'' \<mapsto> []]\<rparr>"

text \<open>
  A stored handle whose timeout is pending: the output of a failed OCR run that an earlier
  call has already scheduled.
\<close>

definition ocr_output_scheduled :: lifecycle where
  "ocr_output_scheduled = run 300000 [Schedule 1000 ''/app/uploads/ocr_42.txt''] (initial ocr_partial_disk)"





section \<open>Properties of the file lifecycle manager\<close>

lemma scanAndCleanup_timers:
  "deletionTimers (scanAndCleanup ttl now dir files s) = deletionTimers s
   \<and> timeouts (scanAndCleanup ttl now dir files s) = timeouts s
   \<and> unlinking (scanAndCleanup ttl now dir files s) = unlinking s
   \<and> nextHandle (scanAndCleanup ttl now dir files s) = nextHandle s"
  unfolding scanAndCleanup_def
  by (induction files arbitrary: s)
     (auto simp: cleanupEntry_def Let_def split: option.splits)

lemma timers_ok_initial: "timers_ok (initial d)"
  by (simp add: timers_ok_def initial_def outstanding_def)

lemma timers_ok_scheduleDeletion:
  assumes "timers_ok s"
  shows "timers_ok (scheduleDeletion ttl now p s)"
proof -
  have "p \<notin> set (outstanding s)" if "deletionTimers s p = None"
    using assms that by (auto simp: timers_ok_def list_all_iff)
  then show ?thesis
    using assms
    by (auto simp: scheduleDeletion_def timers_ok_def outstanding_def timeout_path_def
        list_all_iff less_Suc_eq)
qed

lemma timers_ok_timerFires:
  assumes "timers_ok s"
  shows "timers_ok (timerFires now h s)"
proof (cases "filter (\<lambda>t. fst t = h \<and> snd (snd t) \<le> now) (timeouts s)")
  case Nil
  then show ?thesis using assms by (simp add: timerFires_def)
next
  case (Cons t ts)
  then have "t \<in> set (filter (\<lambda>t. fst t = h \<and> snd (snd t) \<le> now) (timeouts s))"
    by simp
  then have t_in: "t \<in> set (timeouts s)" and t_h: "fst t = h"
    by simp_all
  let ?rest = "filter (\<lambda>u. fst u \<noteq> h) (timeouts s)"
  have d: "distinct (map timeout_path (timeouts s))" "distinct (unlinking s)"
    "set (map timeout_path (timeouts s)) \<inter> set (unlinking s) = {}"
    using assms by (auto simp: timers_ok_def outstanding_def)
  have inj: "inj_on timeout_path (set (timeouts s))"
    using d(1) by (simp add: distinct_map)
  have fresh: "timeout_path t \<notin> timeout_path ` set ?rest"
  proof
    assume "timeout_path t \<in> timeout_path ` set ?rest"
    then obtain u where u: "u \<in> set (timeouts s)" "fst u \<noteq> h" "timeout_path u = timeout_path t"
      by auto
    with inj t_in have "u = t" by (auto dest: inj_onD)
    with u t_h show False by simp
  qed
  have "distinct (map timeout_path ?rest)"
    using d(1) by (rule distinct_map_filter)
  moreover have "timeout_path t \<notin> set (unlinking s)"
    using d(3) t_in by auto
  moreover have "set (map timeout_path ?rest) \<inter> set (unlinking s) = {}"
    using d(3) by auto
  ultimately have "distinct (outstanding (timerFires now h s))"
    using Cons d(2) fresh by (auto simp: timerFires_def outstanding_def)
  moreover have "list_all (\<lambda>p. deletionTimers (timerFires now h s) p \<noteq> None) (outstanding (timerFires now h s))"
    using assms Cons t_in by (auto simp: timerFires_def outstanding_def timers_ok_def list_all_iff)
  moreover have "list_all (\<lambda>t. fst t < nextHandle (timerFires now h s)) (timeouts (timerFires now h s))"
    using assms Cons by (auto simp: timerFires_def timers_ok_def list_all_iff)
  moreover have "distinct (map fst (timeouts (timerFires now h s)))"
    using assms Cons by (auto simp: timerFires_def timers_ok_def distinct_map_filter)
  ultimately show ?thesis by (simp add: timers_ok_def)
qed

lemma timers_ok_unlinkCallback:
  assumes "timers_ok s"
  shows "timers_ok (unlinkCallback p s)"
  using assms
  by (auto simp: unlinkCallback_def timers_ok_def outstanding_def list_all_iff)

lemma timers_ok_scan:
  assumes "timers_ok s"
  shows "timers_ok (scanAndCleanup ttl now dir files s)"
  using assms scanAndCleanup_timers [of ttl now dir files s]
  by (simp add: timers_ok_def outstanding_def)

lemma timers_ok_disk: "timers_ok (s\<lparr>disk := d\<rparr>) = timers_ok s"
  by (simp add: timers_ok_def outstanding_def)

lemma timers_ok_step: "timers_ok s \<Longrightarrow> timers_ok (step ttl ev s)"
  by (cases ev)
     (simp_all add: timers_ok_scheduleDeletion timers_ok_timerFires timers_ok_unlinkCallback
        timers_ok_scan timers_ok_disk)

lemma timers_ok_run: "timers_ok s \<Longrightarrow> timers_ok (run ttl evs s)"
  unfolding run_def
  by (induction evs arbitrary: s) (simp_all add: timers_ok_step)

lemma distinct_map_filter_le1:
  "distinct (map f xs) \<Longrightarrow> length (filter (\<lambda>t. f t = q) xs) \<le> 1"
proof (induction xs)
  case Nil
  then show ?case by simp
next
  case (Cons x xs)
  from Cons.prems have notin: "f x \<notin> f ` set xs" by simp
  have "f t \<noteq> q" if "f x = q" "t \<in> set xs" for t
    using notin that by (metis imageI)
  then have "filter (\<lambda>t. f t = q) xs = []" if "f x = q"
    using that by (simp add: filter_empty_conv)
  with Cons show ?case by auto
qed

lemma timers_ok_at_most_one:
  assumes "timers_ok s"
  shows "length (filter (\<lambda>t. timeout_path t = q) (timeouts s)) \<le> 1"
proof -
  have "distinct (map timeout_path (timeouts s))"
    using assms by (simp add: timers_ok_def outstanding_def)
  then show ?thesis by (rule distinct_map_filter_le1)
qed

lemma scheduleDeletion_twice:
  "scheduleDeletion ttl now' p (scheduleDeletion ttl now p s) = scheduleDeletion ttl now p s"
  by (simp add: scheduleDeletion_def)

text \<open>
  C5. \<open>scheduleDeletion\<close> keeps at most one outstanding timer per path: in every state a
  server can reach from its start, after a call there is at most one pending timeout for
  any path; a second call for the same path changes nothing; a call for a path that is
  already a key of \<open>deletionTimers\<close> changes nothing; and a call for a path with no file on
  disk changes nothing, so the path is not added to the map.
\<close>

theorem scheduleDeletion_at_most_one_timer:
  "length (filter (\<lambda>t. timeout_path t = q)
             (timeouts (scheduleDeletion ttl now p (run ttl evs (initial d))))) \<le> 1
   \<and> scheduleDeletion ttl now' p (scheduleDeletion ttl now p s) = scheduleDeletion ttl now p s
   \<and> (deletionTimers s p \<noteq> None \<longrightarrow> scheduleDeletion ttl now p s = s)
   \<and> (disk s p = None \<longrightarrow> scheduleDeletion ttl now p s = s)"
proof -
  have "timers_ok (scheduleDeletion ttl now p (run ttl evs (initial d)))"
    by (intro timers_ok_scheduleDeletion timers_ok_run timers_ok_initial)
  then have "length (filter (\<lambda>t. timeout_path t = q)
             (timeouts (scheduleDeletion ttl now p (run ttl evs (initial d))))) \<le> 1"
    by (rule timers_ok_at_most_one)
  moreover have "deletionTimers s p \<noteq> None \<longrightarrow> scheduleDeletion ttl now p s = s"
    by (simp add: scheduleDeletion_def)
  moreover have "disk s p = None \<longrightarrow> scheduleDeletion ttl now p s = s"
    by (simp add: scheduleDeletion_def)
  ultimately show ?thesis
    using scheduleDeletion_twice by blast
qed

lemma fired_state_facts:
  "deletionTimers fired_state ''/app/uploads/a.pdf'' = Some 0"
  "disk fired_state ''/app/uploads/a.pdf'' = None"
  "timeouts fired_state = []"
  by (simp_all add: fired_state_def run_def initial_def scheduleDeletion_def timerFires_def
      timeout_path_def)

text \<open>
  An instance: the upload whose timer has fired is still a key of the map and no longer on
  disk, so a further call leaves the state as it is.
\<close>

theorem scheduleDeletion_at_most_one_timer_witness:
  "deletionTimers fired_state ''/app/uploads/a.pdf'' \<noteq> None
   \<and> disk fired_state ''/app/uploads/a.pdf'' = None
   \<and> scheduleDeletion 300000 1000 ''/app/uploads/a.pdf'' fired_state = fired_state
   \<and> length (filter (\<lambda>t. timeout_path t = ''/app/uploads/a.pdf'')
        (timeouts (scheduleDeletion 300000 1000 ''/app/uploads/a.pdf''
           (run 300000 [Schedule 1000 ''/app/uploads/a.pdf'']
              (initial [''/app/uploads/a.pdf'' \<mapsto> pdf_stats]))))) \<le> 1"
  using scheduleDeletion_at_most_one_timer
    [of "''/app/uploads/a.pdf''" 300000 1000 "''/app/uploads/a.pdf''"
        "[Schedule 1000 ''/app/uploads/a.pdf'']" "[''/app/uploads/a.pdf'' \<mapsto> pdf_stats]"
        302000 fired_state]
    fired_state_facts
  by simp


lemma cleanupEntry_timers:
  "deletionTimers (cleanupEntry ttl now dir file s) = deletionTimers s"
  by (simp add: cleanupEntry_def Let_def split: option.splits)

lemma cleanupEntry_disk:
  "disk (cleanupEntry ttl now dir file s) p =
     (if p = path_join dir file \<and> (\<exists>st. disk s p = Some st \<and> expired ttl now st)
         \<and> deletionTimers s p = None
      then None else disk s p)"
  by (auto simp: cleanupEntry_def Let_def split: option.splits)

lemma scanAndCleanup_disk:
  "disk (scanAndCleanup ttl now dir files s) p =
     (if p \<in> path_join dir ` set files \<and> (\<exists>st. disk s p = Some st \<and> expired ttl now st)
         \<and> deletionTimers s p = None
      then None else disk s p)"
  unfolding scanAndCleanup_def
proof (induction files arbitrary: s)
  case Nil
  then show ?case by simp
next
  case (Cons x xs)
  show ?case
    by (simp add: Cons.IH cleanupEntry_disk cleanupEntry_timers) auto
qed

lemma sweep_disk:
  "disk (sweep ttl now uploadDir ufiles outputsDir ofiles s) p =
     (if p \<in> path_join uploadDir ` set ufiles \<union> path_join outputsDir ` set ofiles
         \<and> (\<exists>st. disk s p = Some st \<and> expired ttl now st) \<and> deletionTimers s p = None
      then None else disk s p)"
  unfolding sweep_def
  by (simp add: scanAndCleanup_disk scanAndCleanup_timers) auto

lemma sweep_timers:
  "deletionTimers (sweep ttl now uploadDir ufiles outputsDir ofiles s) = deletionTimers s"
  by (simp add: sweep_def scanAndCleanup_timers)

text \<open>
  C6, as the code has it. For every entry of the two directory listings that is a regular
  file, one run of the sweep deletes it if and only if its age, measured from the later of
  its modification time and its change time, is greater than the TTL and its path is not
  a key of \<open>deletionTimers\<close>; a file that is not deleted keeps its stats, and the sweep
  never changes the map.
\<close>

theorem sweep_deletes_iff_expired_and_unscheduled:
  assumes "p \<in> path_join uploadDir ` set ufiles \<union> path_join outputsDir ` set ofiles"
    and "disk s p = Some st" and "isFile st"
  shows "(disk (sweep ttl now uploadDir ufiles outputsDir ofiles s) p = None)
           = (int now - int (max (mtimeMs st) (ctimeMs st)) > int ttl \<and> deletionTimers s p = None)
       \<and> (disk (sweep ttl now uploadDir ufiles outputsDir ofiles s) p = None
            \<or> disk (sweep ttl now uploadDir ufiles outputsDir ofiles s) p = Some st)
       \<and> deletionTimers (sweep ttl now uploadDir ufiles outputsDir ofiles s) = deletionTimers s"
  using assms
  by (auto simp: sweep_disk sweep_timers expired_def age_def)

text \<open>
  An instance: an unscheduled upload that is older than the TTL by both of its times is
  deleted by the sweep.
\<close>

theorem sweep_deletes_iff_expired_and_unscheduled_witness:
  "''/app/uploads/old.pdf'' \<in> path_join ''/app/uploads'' ` set [''old.pdf'', ''new.pdf'']
       \<union> path_join ''/app/outputs'' ` set []
   \<and> disk (initial [''/app/uploads/old.pdf'' \<mapsto> old_stats]) ''/app/uploads/old.pdf'' = Some old_stats
   \<and> isFile old_stats
   \<and> disk (sweep 300000 1000000 ''/app/uploads'' [''old.pdf'', ''new.pdf''] ''/app/outputs'' []
         (initial [''/app/uploads/old.pdf'' \<mapsto> old_stats])) ''/app/uploads/old.pdf'' = None"
proof -
  have h1: "''/app/uploads/old.pdf'' \<in> path_join ''/app/uploads'' ` set [''old.pdf'', ''new.pdf'']
       \<union> path_join ''/app/outputs'' ` set []"
    by (simp add: path_join_def)
  have h2: "disk (initial [''/app/uploads/old.pdf'' \<mapsto> old_stats]) ''/app/uploads/old.pdf'' = Some old_stats"
    by (simp add: initial_def)
  have h3: "isFile old_stats"
    by (simp add: old_stats_def)
  show ?thesis
    using sweep_deletes_iff_expired_and_unscheduled [OF h1 h2 h3, of 300000 1000000] h1 h2 h3
    by (simp add: old_stats_def initial_def)
qed

text \<open>
  C6 as stated fails: a file whose modification time is older than the TTL and whose path
  is not scheduled survives the sweep when its change time is recent.
\<close>

theorem sweep_keeps_recently_changed_file:
  "disk (initial [''/app/uploads/copy.pdf'' \<mapsto> copied_stats]) ''/app/uploads/copy.pdf''
      = Some copied_stats
   \<and> isFile copied_stats
   \<and> int 1000000 - int (mtimeMs copied_stats) > int 300000
   \<and> deletionTimers (initial [''/app/uploads/copy.pdf'' \<mapsto> copied_stats]) ''/app/uploads/copy.pdf''
      = None
   \<and> disk (sweep 300000 1000000 ''/app/uploads'' [''copy.pdf''] ''/app/outputs'' []
         (initial [''/app/uploads/copy.pdf'' \<mapsto> copied_stats])) ''/app/uploads/copy.pdf''
      = Some copied_stats"
  by (simp add: sweep_def scanAndCleanup_def cleanupEntry_def path_join_def initial_def
      expired_def age_def copied_stats_def)

section \<open>Properties of the direct execution engine\<close>

lemma scheduleDeletion_disk: "disk (scheduleDeletion ttl now p s) = disk s"
  by (simp add: scheduleDeletion_def)


lemma scheduleDeletion_schedules:
  "p \<noteq> [] \<Longrightarrow> disk s p \<noteq> None \<Longrightarrow> deletionTimers (scheduleDeletion ttl now p s) p \<noteq> None"
  by (auto simp: scheduleDeletion_def)

lemma fold_scheduleDeletion_disk: "disk (fold (scheduleDeletion ttl now) ps s) = disk s"
  by (induction ps arbitrary: s) (simp_all add: scheduleDeletion_disk)



lemma path_join_nonempty: "path_join dir f \<noteq> []"
  by (simp add: path_join_def)

lemma onClose_failure_cleanup:
  assumes "code \<noteq> Some 0"
  shows "cleanup (onClose ttl now uploadDir opts buf code srv) =
           (let s1 = fold (scheduleDeletion ttl now) (inputPaths opts) (cleanup srv);
                outputPath = path_join uploadDir (outputFilename opts)
            in if disk s1 outputPath \<noteq> None then scheduleDeletion ttl now outputPath s1 else s1)"
  using assms by (simp add: onClose_def Let_def)


lemma onClose_failure_output:
  assumes "code \<noteq> Some 0" "disk (cleanup srv) (path_join uploadDir (outputFilename opts)) \<noteq> None"
  shows "deletionTimers (cleanup (onClose ttl now uploadDir opts buf code srv))
           (path_join uploadDir (outputFilename opts)) \<noteq> None"
proof -
  let ?s1 = "fold (scheduleDeletion ttl now) (inputPaths opts) (cleanup srv)"
  let ?out = "path_join uploadDir (outputFilename opts)"
  have ex: "disk ?s1 ?out \<noteq> None"
    using assms(2) by (simp add: fold_scheduleDeletion_disk)
  then have "deletionTimers (scheduleDeletion ttl now ?out ?s1) ?out \<noteq> None"
    using path_join_nonempty scheduleDeletion_schedules by blast
  then show ?thesis
    using assms(1) ex
    by (simp add: onClose_failure_cleanup Let_def del: not_None_eq)
qed

lemma show_nat_42: "show_nat 42 = ''42''"
  by (simp add: show_nat.simps digit_def)

lemma ocr_options_from_route: "post_ocr_extract ''/app/uploads'' 42 ocr_request = Inr ocr_options"
  by (simp add: post_ocr_extract_def ocr_request_def ocr_options_def show_nat_42 path_join_def Let_def)



lemma runPython_failure:
  assumes "exitCode r \<noteq> Some 0" "None \<notin> set as"
  shows "runPython scr as sid r =
           (concat (map (onData sid) (stdoutChunks r)),
            Inl (''Exit code '' @ show_code (exitCode r) @ '': '' @ slice 200 (concat (stderrChunks r))))"
  using assms by (simp add: runPython_def Let_def)

lemma processor_failure:
  assumes "exitCode r \<noteq> Some 0" "routing uploadDir now j = Some (scr, as, out)" "None \<notin> set as"
  shows "processor uploadDir now j r =
           map (\<lambda>u. Progress (jobId j) (Some u))
               (concat (map (onData (jobData j ''socketId'')) (stdoutChunks r))) @
           [Progress (jobId j)
              (Some (ProgressData
                 (''Error: '' @ ''Exit code '' @ show_code (exitCode r) @ '': '' @
                    slice 200 (concat (stderrChunks r)))
                 (jobData j ''socketId''))),
            Failed (jobId j)
              (''Exit code '' @ show_code (exitCode r) @ '': '' @ slice 200 (concat (stderrChunks r)))]"
  using assms by (simp add: processor_def Let_def runPython_failure)


lemma ocr_job_routing:
  "routing ''/app/uploads'' 42 ocr_job =
     Some (''ocr_engine.py'', [Some ''/app/uploads/1-scan.png'', Some ''/app/uploads/ocr_42.txt''],
           ''ocr_42.txt'')"
  by (simp add: routing_def ocr_job_def show_nat_42 path_join_def Let_def)

section \<open>Properties of the worker\<close>

lemma num_char_not_s: "\<not> is_num_char CHR ''s''"
  by (simp add: is_num_char_def)

lemma match_here_Nil: "match_here [] = None"
  by (simp add: match_here_def)

lemma match_here_sound:
  assumes "match_here s = Some d"
  shows "\<exists>post. s = ''won in '' @ d @ ''s'' @ post \<and> d \<noteq> [] \<and> list_all is_num_char d"
proof -
  let ?rest = "drop 7 s"
  from assms have lit: "take 7 s = ''won in ''"
    and d: "d = takeWhile is_num_char ?rest" and ne: "d \<noteq> []"
    and nxt: "take 1 (drop (7 + length d) s) = ''s''"
    by (auto simp: match_here_def Let_def split: if_splits)
  have s: "s = ''won in '' @ ?rest"
    using lit append_take_drop_id [of 7 s] by simp
  have rest: "?rest = d @ dropWhile is_num_char ?rest"
    using d by simp
  have "drop (7 + length d) s = drop (length d) ?rest"
    by (simp add: add.commute)
  also have "\<dots> = dropWhile is_num_char ?rest"
    using d by (metis dropWhile_eq_drop)
  finally have "take 1 (dropWhile is_num_char ?rest) = ''s''"
    using nxt by simp
  then obtain post where "dropWhile is_num_char ?rest = ''s'' @ post"
    by (cases "dropWhile is_num_char ?rest") auto
  with rest have "?rest = d @ ''s'' @ post" by simp
  with s have "s = ''won in '' @ d @ ''s'' @ post" by simp
  moreover have "list_all is_num_char d"
    unfolding d list_all_iff by (auto dest: set_takeWhileD)
  ultimately show ?thesis using ne by blast
qed

lemma match_here_complete:
  assumes "d \<noteq> []" "list_all is_num_char d"
  shows "match_here (''won in '' @ d @ ''s'' @ post) = Some d"
proof -
  have "takeWhile is_num_char (d @ ''s'' @ post) = d"
    using assms(2) num_char_not_s by (simp add: list_all_iff takeWhile_append2)
  moreover have "drop (7 + length d) (''won in '' @ d @ ''s'' @ post) = ''s'' @ post"
  proof -
    have "drop (7 + length d) (''won in '' @ d @ ''s'' @ post)
            = drop (length d) (drop 7 (''won in '' @ d @ ''s'' @ post))"
      by (simp only: drop_drop add.commute)
    also have "\<dots> = ''s'' @ post" by simp
    finally show ?thesis .
  qed
  moreover have "take 7 (''won in '' @ d @ ''s'' @ post) = ''won in ''"
    and "drop 7 (''won in '' @ d @ ''s'' @ post) = d @ ''s'' @ post"
    by simp_all
  ultimately show ?thesis
    using assms(1) unfolding match_here_def Let_def by (simp del: drop_append take_append)
qed

lemma match_duration_sound:
  "match_duration s = Some d \<Longrightarrow>
     \<exists>pre post. s = pre @ ''won in '' @ d @ ''s'' @ post \<and> d \<noteq> [] \<and> list_all is_num_char d"
proof (induction s)
  case Nil
  then show ?case by simp
next
  case (Cons c cs)
  show ?case
  proof (cases "match_here (c # cs)")
    case None
    with Cons.prems have "match_duration cs = Some d" by simp
    then obtain pre post where
      "cs = pre @ ''won in '' @ d @ ''s'' @ post \<and> d \<noteq> [] \<and> list_all is_num_char d"
      using Cons.IH by blast
    then have "c # cs = (c # pre) @ ''won in '' @ d @ ''s'' @ post \<and> d \<noteq> [] \<and> list_all is_num_char d"
      by simp
    then show ?thesis by blast
  next
    case (Some d')
    with Cons.prems have "d' = d" by simp
    with Some obtain post where
      "c # cs = ''won in '' @ d @ ''s'' @ post \<and> d \<noteq> [] \<and> list_all is_num_char d"
      using match_here_sound by blast
    then have "c # cs = [] @ ''won in '' @ d @ ''s'' @ post \<and> d \<noteq> [] \<and> list_all is_num_char d"
      by simp
    then show ?thesis by blast
  qed
qed

lemma match_duration_here:
  "match_here s = Some d \<Longrightarrow> match_duration s = Some d"
  by (cases s) (simp_all add: match_here_Nil)

lemma match_duration_skip:
  "(\<forall>i<length pre. match_here (drop i (pre @ s)) = None) \<Longrightarrow>
     match_duration (pre @ s) = match_duration s"
proof (induction pre)
  case Nil
  then show ?case by simp
next
  case (Cons c cs)
  from Cons.prems have "match_here (drop 0 ((c # cs) @ s)) = None" by blast
  then have here: "match_here (c # cs @ s) = None" by simp
  have "\<forall>i<length cs. match_here (drop i (cs @ s)) = None"
  proof (intro allI impI)
    fix i assume "i < length cs"
    then have "Suc i < length (c # cs)" by simp
    with Cons.prems have "match_here (drop (Suc i) ((c # cs) @ s)) = None" by blast
    then show "match_here (drop i (cs @ s)) = None" by simp
  qed
  then have "match_duration (cs @ s) = match_duration s" by (rule Cons.IH)
  with here show ?case by simp
qed

lemma match_duration_leftmost:
  assumes "d \<noteq> []" "list_all is_num_char d"
    and "\<forall>i<length pre. match_here (drop i (pre @ ''won in '' @ d @ ''s'' @ post)) = None"
  shows "match_duration (pre @ ''won in '' @ d @ ''s'' @ post) = Some d"
proof -
  have "match_duration (pre @ ''won in '' @ d @ ''s'' @ post)
          = match_duration (''won in '' @ d @ ''s'' @ post)"
    using assms(3) by (rule match_duration_skip)
  also have "\<dots> = Some d"
    using assms(1,2) by (intro match_duration_here match_here_complete)
  finally show ?thesis .
qed

lemma match_duration_complete:
  assumes "d \<noteq> []" "list_all is_num_char d"
  shows "match_duration (pre @ ''won in '' @ d @ ''s'' @ post) \<noteq> None"
proof (induction pre)
  case Nil
  have "match_duration (''won in '' @ d @ ''s'' @ post) = Some d"
    using assms by (intro match_duration_here match_here_complete)
  then show ?case by simp
next
  case (Cons c cs)
  then show ?case by (simp split: option.splits)
qed

lemma runPython_success:
  assumes "exitCode r = Some 0" "None \<notin> set as"
  shows "runPython scr as sid r =
           (concat (map (onData sid) (stdoutChunks r)),
            Inr [(''duration'',
                  JStr (case match_duration (concat (stdoutChunks r)) of
                          Some d \<Rightarrow> d | None \<Rightarrow> ''0.00''))])"
  using assms by (simp add: runPython_def Let_def)

lemma processor_success:
  assumes "exitCode r = Some 0" "routing uploadDir ts j = Some (scr, as, outName)" "None \<notin> set as"
  shows "processor uploadDir ts j r =
           map (\<lambda>u. Progress (jobId j) (Some u))
               (concat (map (onData (jobData j ''socketId'')) (stdoutChunks r))) @
           [Completed (jobId j)
              (Some (ReturnValue (jobData j ''socketId'')
                 [(''status'', JStr ''success''),
                  (''downloadUrl'', JStr (''/download/'' @ outName)),
                  (''duration'',
                   JStr (case match_duration (concat (stdoutChunks r)) of
                           Some d \<Rightarrow> d | None \<Rightarrow> ''0.00'')),
                  (''file'', JStr outName)]))]"
  using assms by (simp add: processor_def Let_def runPython_success)

lemma onClose_success:
  "onClose ttl now uploadDir opts buf (Some 0) srv =
     (let outputPath = path_join uploadDir (outputFilename opts);
          s1 = fold (scheduleDeletion ttl now) (inputPaths opts) (cleanup srv);
          responseData = [(''status'', JStr ''success''),
                          (''downloadUrl'', JStr (''/download/'' @ outputFilename opts)),
                          (''fileSize'',
                           JNum (int (case disk (cleanup srv) outputPath of
                                        None \<Rightarrow> 0 | Some st \<Rightarrow> size st)))]
      in srv\<lparr>emitted := io_emit (socketId opts) ''conversion-finished''
                            (Object responseData) (emitted srv),
              cleanup := scheduleDeletion ttl now outputPath s1,
              response := send (200, responseData) (response srv)\<rparr>)"
  by (simp add: onClose_def Let_def fold_scheduleDeletion_disk)

lemma executeTask_success_emitted:
  assumes "exitCode r = Some 0"
  shows "emitted (executeTask ttl now uploadDir opts r srv) =
           io_emit (socketId opts) ''conversion-finished''
             (Object [(''status'', JStr ''success''),
                      (''downloadUrl'', JStr (''/download/'' @ outputFilename opts)),
                      (''fileSize'',
                       JNum (int (case disk (cleanup srv) (path_join uploadDir (outputFilename opts)) of
                                    None \<Rightarrow> 0 | Some st \<Rightarrow> size st)))])
             (fold (onStdout (socketId opts)) (stdoutChunks r) (emitted srv))"
  using assms by (simp add: executeTask_def onClose_success Let_def)

lemma executeTask_success_response:
  assumes "exitCode r = Some 0"
  shows "response (executeTask ttl now uploadDir opts r srv) =
           send (200, [(''status'', JStr ''success''),
                       (''downloadUrl'', JStr (''/download/'' @ outputFilename opts)),
                       (''fileSize'',
                        JNum (int (case disk (cleanup srv) (path_join uploadDir (outputFilename opts)) of
                                     None \<Rightarrow> 0 | Some st \<Rightarrow> size st)))])
             (response srv)"
  using assms by (simp add: executeTask_def onClose_success Let_def)

text \<open>
  C1, as the code has it. When the engine exits with code 0 the outcome is a success and
  never a failure, whether or not the output file exists. The direct executor answers and
  emits \<open>conversion-finished\<close> with status \<open>success\<close> and a \<open>fileSize\<close> that is 0 when the
  file is missing. The queued worker does not look at the disk: its processor publishes a
  completion whose result has the properties status, downloadUrl, duration and file, and
  no \<open>fileSize\<close>.
\<close>

theorem zero_exit_is_success:
  assumes "exitCode r = Some 0"
  shows "(disk (cleanup srv) (path_join uploadDir (outputFilename opts)) = None \<longrightarrow>
            response (executeTask ttl now uploadDir opts r srv) =
              send (200, [(''status'', JStr ''success''),
                          (''downloadUrl'', JStr (''/download/'' @ outputFilename opts)),
                          (''fileSize'', JNum 0)])
                (response srv)
          \<and> emitted (executeTask ttl now uploadDir opts r srv) =
              io_emit (socketId opts) ''conversion-finished''
                (Object [(''status'', JStr ''success''),
                         (''downloadUrl'', JStr (''/download/'' @ outputFilename opts)),
                         (''fileSize'', JNum 0)])
                (fold (onStdout (socketId opts)) (stdoutChunks r) (emitted srv)))
       \<and> (routing uploadDir ts j = Some (scr, as, outName) \<and> None \<notin> set as \<longrightarrow>
            (\<exists>res. processor uploadDir ts j r =
                     map (\<lambda>u. Progress (jobId j) (Some u))
                         (concat (map (onData (jobData j ''socketId'')) (stdoutChunks r))) @
                     [Completed (jobId j) (Some (ReturnValue (jobData j ''socketId'') res))]
                   \<and> map_of res ''status'' = Some (JStr ''success'')
                   \<and> map fst res = [''status'', ''downloadUrl'', ''duration'', ''file'']
                   \<and> map_of res ''fileSize'' = None))"
proof (intro conjI impI)
  assume "disk (cleanup srv) (path_join uploadDir (outputFilename opts)) = None"
  then show "response (executeTask ttl now uploadDir opts r srv) =
              send (200, [(''status'', JStr ''success''),
                          (''downloadUrl'', JStr (''/download/'' @ outputFilename opts)),
                          (''fileSize'', JNum 0)])
                (response srv)"
    and "emitted (executeTask ttl now uploadDir opts r srv) =
              io_emit (socketId opts) ''conversion-finished''
                (Object [(''status'', JStr ''success''),
                         (''downloadUrl'', JStr (''/download/'' @ outputFilename opts)),
                         (''fileSize'', JNum 0)])
                (fold (onStdout (socketId opts)) (stdoutChunks r) (emitted srv))"
    using assms by (simp_all add: executeTask_success_response executeTask_success_emitted)
next
  assume "routing uploadDir ts j = Some (scr, as, outName) \<and> None \<notin> set as"
  then have "processor uploadDir ts j r =
           map (\<lambda>u. Progress (jobId j) (Some u))
               (concat (map (onData (jobData j ''socketId'')) (stdoutChunks r))) @
           [Completed (jobId j)
              (Some (ReturnValue (jobData j ''socketId'')
                 [(''status'', JStr ''success''),
                  (''downloadUrl'', JStr (''/download/'' @ outName)),
                  (''duration'',
                   JStr (case match_duration (concat (stdoutChunks r)) of
                           Some d \<Rightarrow> d | None \<Rightarrow> ''0.00'')),
                  (''file'', JStr outName)]))]"
    using assms processor_success by blast
  then show "\<exists>res. processor uploadDir ts j r =
                     map (\<lambda>u. Progress (jobId j) (Some u))
                         (concat (map (onData (jobData j ''socketId'')) (stdoutChunks r))) @
                     [Completed (jobId j) (Some (ReturnValue (jobData j ''socketId'') res))]
                   \<and> map_of res ''status'' = Some (JStr ''success'')
                   \<and> map fst res = [''status'', ''downloadUrl'', ''duration'', ''file'']
                   \<and> map_of res ''fileSize'' = None"
    by simp
qed

lemma compress_job_routing:
  "routing ''/app/uploads'' 42 compress_job =
     Some (''compressor.py'',
           [Some ''/app/uploads/1-a.pdf'', Some ''/app/uploads/compressed_42.pdf'', Some ''true'',
            Some ''true'', Some ''100''],
           ''compressed_42.pdf'')"
  by (simp add: routing_def compress_job_def show_nat_42 path_join_def Let_def)

lemma timed_run_output: "match_duration (concat (stdoutChunks timed_run)) = Some ''0.5''"
  by (simp add: timed_run_def match_here_def is_num_char_def)

lemma silent_run_output: "match_duration (concat (stdoutChunks silent_run)) = None"
  by (simp add: silent_run_def match_here_def)

lemma compress_job_timed:
  "processor ''/app/uploads'' 42 compress_job timed_run =
     [Progress 7 (Some (ProgressData ''Compressing'' (Some ''abc''))),
      Progress 7 (Some (ProgressData ''won in 0.5s'' (Some ''abc''))),
      Completed 7 (Some (ReturnValue (Some ''abc'')
        [(''status'', JStr ''success''),
         (''downloadUrl'', JStr ''/download/compressed_42.pdf''),
         (''duration'', JStr ''0.5''),
         (''file'', JStr ''compressed_42.pdf'')]))]"
proof -
  have "exitCode timed_run = Some 0" by (simp add: timed_run_def)
  from processor_success [OF this compress_job_routing] show ?thesis
    by (simp add: timed_run_output)
       (simp add: timed_run_def compress_job_def onData_def trim_def is_space_def)
qed

lemma compress_job_silent:
  "processor ''/app/uploads'' 42 compress_job silent_run =
     [Progress 7 (Some (ProgressData ''Compressing'' (Some ''abc''))),
      Completed 7 (Some (ReturnValue (Some ''abc'')
        [(''status'', JStr ''success''),
         (''downloadUrl'', JStr ''/download/compressed_42.pdf''),
         (''duration'', JStr ''0.00''),
         (''file'', JStr ''compressed_42.pdf'')]))]"
proof -
  have "exitCode silent_run = Some 0" by (simp add: silent_run_def)
  from processor_success [OF this compress_job_routing] show ?thesis
    by (simp add: silent_run_output)
       (simp add: silent_run_def compress_job_def onData_def trim_def is_space_def)
qed

text \<open>
  C1 as stated fails for a queued job: the engine exits with code 0 and the result that
  reaches the client has no \<open>fileSize\<close> property, so it does not report a size of 0.
\<close>

theorem queued_success_has_no_fileSize:
  "exitCode timed_run = Some 0
   \<and> last (processor ''/app/uploads'' 42 compress_job timed_run) =
       Completed 7 (Some (ReturnValue (Some ''abc'')
         [(''status'', JStr ''success''),
          (''downloadUrl'', JStr ''/download/compressed_42.pdf''),
          (''duration'', JStr ''0.5''),
          (''file'', JStr ''compressed_42.pdf'')]))
   \<and> map_of [(''status'', JStr ''success''),
              (''downloadUrl'', JStr ''/download/compressed_42.pdf''),
              (''duration'', JStr ''0.5''),
              (''file'', JStr ''compressed_42.pdf'')] ''fileSize'' \<noteq> Some (JNum 0)"
  by (simp add: compress_job_timed) (simp add: timed_run_def)

text \<open>
  An instance: the direct executor with no output file on disk, and the queued
  compression job.
\<close>

theorem zero_exit_is_success_witness:
  "exitCode timed_run = Some 0
   \<and> disk (cleanup (idle_server ocr_disk)) (path_join ''/app/uploads'' (outputFilename ocr_options)) = None
   \<and> response (executeTask 300000 5000 ''/app/uploads'' ocr_options timed_run (idle_server ocr_disk)) =
       Some (200, [(''status'', JStr ''success''),
                   (''downloadUrl'', JStr ''/download/ocr_42.txt''),
                   (''fileSize'', JNum 0)])
   \<and> (\<exists>res. processor ''/app/uploads'' 42 compress_job timed_run =
               [Progress 7 (Some (ProgressData ''Compressing'' (Some ''abc''))),
                Progress 7 (Some (ProgressData ''won in 0.5s'' (Some ''abc''))),
                Completed 7 (Some (ReturnValue (Some ''abc'') res))]
             \<and> map_of res ''status'' = Some (JStr ''success'')
             \<and> map_of res ''fileSize'' = None)"
proof -
  have h1: "exitCode timed_run = Some 0"
    by (simp add: timed_run_def)
  have h2: "disk (cleanup (idle_server ocr_disk))
              (path_join ''/app/uploads'' (outputFilename ocr_options)) = None"
    by (simp add: idle_server_def initial_def ocr_disk_def ocr_options_def path_join_def)
  note T = zero_exit_is_success
    [OF h1, where srv = "idle_server ocr_disk" and uploadDir = "''/app/uploads''"
       and opts = ocr_options and ttl = 300000 and now = 5000 and ts = 42 and j = compress_job
       and scr = "''compressor.py''"
       and as = "[Some ''/app/uploads/1-a.pdf'', Some ''/app/uploads/compressed_42.pdf'',
                  Some ''true'', Some ''true'', Some ''100'']"
       and outName = "''compressed_42.pdf''"]
  have a: "response (executeTask 300000 5000 ''/app/uploads'' ocr_options timed_run (idle_server ocr_disk)) =
       Some (200, [(''status'', JStr ''success''),
                   (''downloadUrl'', JStr ''/download/ocr_42.txt''),
                   (''fileSize'', JNum 0)])"
    using T h2 by (simp add: send_def idle_server_def ocr_options_def)
  have ups: "map (\<lambda>u. Progress 7 (Some u))
               (concat (map (onData (Some ''abc'')) (stdoutChunks timed_run)))
             = [Progress 7 (Some (ProgressData ''Compressing'' (Some ''abc''))),
                Progress 7 (Some (ProgressData ''won in 0.5s'' (Some ''abc'')))]"
    by (simp add: timed_run_def onData_def trim_def is_space_def)
  have ids: "jobId compress_job = 7" "jobData compress_job ''socketId'' = Some ''abc''"
    by (simp_all add: compress_job_def)
  from T compress_job_routing obtain res where
    "processor ''/app/uploads'' 42 compress_job timed_run =
       map (\<lambda>u. Progress (jobId compress_job) (Some u))
           (concat (map (onData (jobData compress_job ''socketId'')) (stdoutChunks timed_run))) @
       [Completed (jobId compress_job) (Some (ReturnValue (jobData compress_job ''socketId'') res))]"
    and "map_of res ''status'' = Some (JStr ''success'')"
    and "map_of res ''fileSize'' = None"
    by auto
  then have b: "\<exists>res. processor ''/app/uploads'' 42 compress_job timed_run =
               [Progress 7 (Some (ProgressData ''Compressing'' (Some ''abc''))),
                Progress 7 (Some (ProgressData ''won in 0.5s'' (Some ''abc''))),
                Completed 7 (Some (ReturnValue (Some ''abc'') res))]
             \<and> map_of res ''status'' = Some (JStr ''success'')
             \<and> map_of res ''fileSize'' = None"
    by (simp add: ups ids)
  from h1 h2 a b show ?thesis by blast
qed

text \<open>
  C4, as the code has it. In the queued worker, after an exit with code 0 the collected
  standard output is matched against \<open>/won in ([\d\.]+)s/\<close>: the promise resolves to an
  object whose \<open>duration\<close> is the group of the leftmost match, or the string \<open>0.00\<close> when
  nothing matches, and the processor copies it into the result; no error is raised. A
  match is a non-empty run of digits and dots between \<open>won in \<close> and \<open>s\<close>, and every
  such occurrence is found. The direct executor does not scan the output: its result has
  no \<open>duration\<close> property.
\<close>

theorem duration_token_or_default:
  assumes "exitCode r = Some 0"
  shows "(None \<notin> set as \<longrightarrow>
            snd (runPython scr as sid r) =
              Inr [(''duration'',
                    JStr (case match_duration (concat (stdoutChunks r)) of
                            Some d \<Rightarrow> d | None \<Rightarrow> ''0.00''))])
       \<and> (routing uploadDir ts j = Some (scr, as, outName) \<and> None \<notin> set as \<longrightarrow>
            last (processor uploadDir ts j r) =
              Completed (jobId j)
                (Some (ReturnValue (jobData j ''socketId'')
                   [(''status'', JStr ''success''),
                    (''downloadUrl'', JStr (''/download/'' @ outName)),
                    (''duration'',
                     JStr (case match_duration (concat (stdoutChunks r)) of
                             Some d \<Rightarrow> d | None \<Rightarrow> ''0.00'')),
                    (''file'', JStr outName)])))
       \<and> (match_duration (concat (stdoutChunks r)) = Some d \<longrightarrow>
            (\<exists>pre post. concat (stdoutChunks r) = pre @ ''won in '' @ d @ ''s'' @ post
               \<and> d \<noteq> [] \<and> list_all is_num_char d))
       \<and> (concat (stdoutChunks r) = pre @ ''won in '' @ d @ ''s'' @ post
            \<and> d \<noteq> [] \<and> list_all is_num_char d
            \<and> (\<forall>i<length pre. match_here (drop i (concat (stdoutChunks r))) = None) \<longrightarrow>
            match_duration (concat (stdoutChunks r)) = Some d)
       \<and> ((\<nexists>pre d post. concat (stdoutChunks r) = pre @ ''won in '' @ d @ ''s'' @ post
               \<and> d \<noteq> [] \<and> list_all is_num_char d) \<longrightarrow>
            match_duration (concat (stdoutChunks r)) = None)
       \<and> (\<exists>obj. response (executeTask ttl now uploadDir opts r srv) = send (200, obj) (response srv)
               \<and> map_of obj ''duration'' = None)"
proof (intro conjI impI)
  assume "None \<notin> set as"
  then show "snd (runPython scr as sid r) =
              Inr [(''duration'',
                    JStr (case match_duration (concat (stdoutChunks r)) of
                            Some d \<Rightarrow> d | None \<Rightarrow> ''0.00''))]"
    using assms by (simp add: runPython_success)
next
  assume "routing uploadDir ts j = Some (scr, as, outName) \<and> None \<notin> set as"
  then show "last (processor uploadDir ts j r) =
              Completed (jobId j)
                (Some (ReturnValue (jobData j ''socketId'')
                   [(''status'', JStr ''success''),
                    (''downloadUrl'', JStr (''/download/'' @ outName)),
                    (''duration'',
                     JStr (case match_duration (concat (stdoutChunks r)) of
                             Some d \<Rightarrow> d | None \<Rightarrow> ''0.00'')),
                    (''file'', JStr outName)]))"
    using assms by (simp add: processor_success)
next
  assume "match_duration (concat (stdoutChunks r)) = Some d"
  then show "\<exists>pre post. concat (stdoutChunks r) = pre @ ''won in '' @ d @ ''s'' @ post
               \<and> d \<noteq> [] \<and> list_all is_num_char d"
    by (rule match_duration_sound)
next
  assume a: "concat (stdoutChunks r) = pre @ ''won in '' @ d @ ''s'' @ post
            \<and> d \<noteq> [] \<and> list_all is_num_char d
            \<and> (\<forall>i<length pre. match_here (drop i (concat (stdoutChunks r))) = None)"
  then have eq: "concat (stdoutChunks r) = pre @ ''won in '' @ d @ ''s'' @ post"
    and d: "d \<noteq> []" "list_all is_num_char d"
    and none: "\<forall>i<length pre. match_here (drop i (concat (stdoutChunks r))) = None"
    by blast+
  from none have "\<forall>i<length pre. match_here (drop i (pre @ ''won in '' @ d @ ''s'' @ post)) = None"
    unfolding eq .
  with d have "match_duration (pre @ ''won in '' @ d @ ''s'' @ post) = Some d"
    by (rule match_duration_leftmost)
  then show "match_duration (concat (stdoutChunks r)) = Some d"
    unfolding eq .
next
  assume "\<nexists>pre d post. concat (stdoutChunks r) = pre @ ''won in '' @ d @ ''s'' @ post
               \<and> d \<noteq> [] \<and> list_all is_num_char d"
  then show "match_duration (concat (stdoutChunks r)) = None"
    using match_duration_sound [of "concat (stdoutChunks r)"]
    by (cases "match_duration (concat (stdoutChunks r))") blast+
next
  show "\<exists>obj. response (executeTask ttl now uploadDir opts r srv) = send (200, obj) (response srv)
               \<and> map_of obj ''duration'' = None"
    by (rule exI, rule conjI, rule executeTask_success_response [OF assms]) simp
qed

text \<open>
  C4 as stated fails: the engine exits with code 0 without printing the token, and the
  result still has a \<open>duration\<close> property, the string \<open>0.00\<close>.
\<close>

theorem missing_token_reports_default_duration:
  "exitCode silent_run = Some 0
   \<and> match_duration (concat (stdoutChunks silent_run)) = None
   \<and> last (processor ''/app/uploads'' 42 compress_job silent_run) =
       Completed 7 (Some (ReturnValue (Some ''abc'')
         [(''status'', JStr ''success''),
          (''downloadUrl'', JStr ''/download/compressed_42.pdf''),
          (''duration'', JStr ''0.00''),
          (''file'', JStr ''compressed_42.pdf'')]))
   \<and> map_of [(''status'', JStr ''success''),
              (''downloadUrl'', JStr ''/download/compressed_42.pdf''),
              (''duration'', JStr ''0.00''),
              (''file'', JStr ''compressed_42.pdf'')] ''duration'' = Some (JStr ''0.00'')"
  by (simp add: compress_job_silent silent_run_output) (simp add: silent_run_def)

text \<open>
  Two instances: a run that prints \<open>won in 0.5s\<close> after another chunk, and a run that
  prints no token.
\<close>

theorem duration_token_or_default_witness:
  "exitCode timed_run = Some 0 \<and> exitCode silent_run = Some 0
   \<and> snd (runPython ''compressor.py''
            [Some ''/app/uploads/1-a.pdf'', Some ''/app/uploads/compressed_42.pdf'', Some ''true'',
             Some ''true'', Some ''100''] (Some ''abc'') timed_run)
       = Inr [(''duration'', JStr ''0.5'')]
   \<and> snd (runPython ''compressor.py''
            [Some ''/app/uploads/1-a.pdf'', Some ''/app/uploads/compressed_42.pdf'', Some ''true'',
             Some ''true'', Some ''100''] (Some ''abc'') silent_run)
       = Inr [(''duration'', JStr ''0.00'')]
   \<and> last (processor ''/app/uploads'' 42 compress_job timed_run) =
       Completed 7 (Some (ReturnValue (Some ''abc'')
         [(''status'', JStr ''success''),
          (''downloadUrl'', JStr ''/download/compressed_42.pdf''),
          (''duration'', JStr ''0.5''),
          (''file'', JStr ''compressed_42.pdf'')]))
   \<and> (\<exists>pre post. concat (stdoutChunks timed_run) = pre @ ''won in '' @ ''0.5'' @ ''s'' @ post)
   \<and> match_duration (''Compressing'' @ ''won in '' @ ''0.5'' @ ''s'' @ []) = Some ''0.5''
   \<and> match_duration (concat (stdoutChunks silent_run)) = None"
proof -
  have h1: "exitCode timed_run = Some 0" and h2: "exitCode silent_run = Some 0"
    by (simp_all add: timed_run_def silent_run_def)
  note T1 = duration_token_or_default
    [OF h1, where as = "[Some ''/app/uploads/1-a.pdf'', Some ''/app/uploads/compressed_42.pdf'',
                         Some ''true'', Some ''true'', Some ''100'']"
       and scr = "''compressor.py''" and sid = "Some ''abc''" and uploadDir = "''/app/uploads''"
       and ts = 42 and j = compress_job and outName = "''compressed_42.pdf''"
       and d = "''0.5''" and pre = "''Compressing''" and post = "[]"]
  note T2 = duration_token_or_default
    [OF h2, where as = "[Some ''/app/uploads/1-a.pdf'', Some ''/app/uploads/compressed_42.pdf'',
                         Some ''true'', Some ''true'', Some ''100'']"
       and scr = "''compressor.py''" and sid = "Some ''abc''"]
  have out: "concat (stdoutChunks timed_run) = ''Compressing'' @ ''won in '' @ ''0.5'' @ ''s'' @ []"
    by (simp add: timed_run_def)
  have num: "''0.5'' \<noteq> [] \<and> list_all is_num_char ''0.5''"
    by (simp add: is_num_char_def)
  have left: "\<forall>i<length ''Compressing''. match_here (drop i (concat (stdoutChunks timed_run))) = None"
    by (simp add: timed_run_def match_here_def eval_nat_numeral All_less_Suc)
  have absent: "\<nexists>pre d post. concat (stdoutChunks silent_run) = pre @ ''won in '' @ d @ ''s'' @ post
                  \<and> d \<noteq> [] \<and> list_all is_num_char d"
    using match_duration_complete silent_run_output by metis
  have a: "snd (runPython ''compressor.py''
            [Some ''/app/uploads/1-a.pdf'', Some ''/app/uploads/compressed_42.pdf'', Some ''true'',
             Some ''true'', Some ''100''] (Some ''abc'') timed_run)
       = Inr [(''duration'', JStr ''0.5'')]"
    using T1 by (simp add: timed_run_output)
  have b: "snd (runPython ''compressor.py''
            [Some ''/app/uploads/1-a.pdf'', Some ''/app/uploads/compressed_42.pdf'', Some ''true'',
             Some ''true'', Some ''100''] (Some ''abc'') silent_run)
       = Inr [(''duration'', JStr ''0.00'')]"
    using T2 by (simp add: silent_run_output)
  have c: "last (processor ''/app/uploads'' 42 compress_job timed_run) =
       Completed 7 (Some (ReturnValue (Some ''abc'')
         [(''status'', JStr ''success''),
          (''downloadUrl'', JStr ''/download/compressed_42.pdf''),
          (''duration'', JStr ''0.5''),
          (''file'', JStr ''compressed_42.pdf'')]))"
    using T1 compress_job_routing by (simp add: timed_run_output compress_job_def)
  have d: "\<exists>pre post. concat (stdoutChunks timed_run) = pre @ ''won in '' @ ''0.5'' @ ''s'' @ post"
    using T1 timed_run_output by blast
  have e: "match_duration (concat (stdoutChunks timed_run)) = Some ''0.5''"
    using T1 out num left by blast
  have f: "match_duration (concat (stdoutChunks silent_run)) = None"
    using T2 absent by blast
  from h1 h2 a b c d e [unfolded out] f show ?thesis by blast
qed

section \<open>Properties of the event bridge\<close>

lemma bridge_all_append: "bridge_all (xs @ ys) b = bridge_all ys (bridge_all xs b)"
  by (simp add: bridge_all_def)

lemma bridge_all_progress:
  assumes "sid \<noteq> []"
  shows "bridge_all (map (\<lambda>u. Progress jid (Some u)) (concat (map (onData (Some sid)) chunks))) b =
           b\<lparr>emits := emits b @
                map (\<lambda>m. (sid, ''conversion-status'', Text m))
                    (filter (\<lambda>m. m \<noteq> []) (map trim chunks))\<rparr>"
proof (induction chunks arbitrary: b)
  case Nil
  then show ?case by (simp add: bridge_all_def)
next
  case (Cons c cs)
  have step: "bridge_all (map (\<lambda>u. Progress jid (Some u)) (onData (Some sid) c)) b =
          b\<lparr>emits := emits b @ (if trim c = [] then [] else [(sid, ''conversion-status'', Text (trim c))])\<rparr>"
    using assms by (simp add: bridge_all_def onData_def Let_def io_emit_def)
  show ?case
    by (simp add: bridge_all_append Cons.IH step)
qed

lemma bridge_failure:
  assumes "exitCode r \<noteq> Some 0" "routing uploadDir ts j = Some (scr, as, outName)"
    "None \<notin> set as" "jobData j ''socketId'' = Some sid" "sid \<noteq> []"
  shows "emits (bridge_all (processor uploadDir ts j r) b) =
           emits b @
           map (\<lambda>m. (sid, ''conversion-status'', Text m))
               (filter (\<lambda>m. m \<noteq> []) (map trim (stdoutChunks r)) @
                [''Error: '' @ ''Exit code '' @ show_code (exitCode r) @ '': '' @
                   slice 200 (concat (stderrChunks r))])"
  using assms
  by (simp add: processor_failure bridge_all_append bridge_all_progress)
     (simp add: bridge_all_def io_emit_def)

text \<open>
  C3, as the code has it. A progress or completion event whose payload carries a non-empty
  \<open>socketId\<close> is emitted to the room of that id, and Socket.IO hands an emission to the
  client only when a socket with that id is connected; an event without a \<open>socketId\<close> is
  dropped. A failure event is written to the error console and nothing is emitted for it.
  What a client sees of a failed engine run is the progress update \<open>Error: <message>\<close>
  that the worker publishes before the job fails: every emission of the run is a
  \<open>conversion-status\<close>.
\<close>

theorem bridge_forwards_progress_and_completion:
  "(sid \<noteq> [] \<longrightarrow>
      emits (queueEvents_on (Progress jid (Some (ProgressData m (Some sid)))) b)
        = emits b @ [(sid, ''conversion-status'', Text m)]
    \<and> emits (queueEvents_on (Completed jid (Some (ReturnValue (Some sid) res))) b)
        = emits b @ [(sid, ''conversion-finished'', Object res)])
   \<and> emits (queueEvents_on (Progress jid (Some (ProgressData m None))) b) = emits b
   \<and> emits (queueEvents_on (Completed jid (Some (ReturnValue None res))) b) = emits b
   \<and> emits (queueEvents_on (Progress jid None) b) = emits b
   \<and> emits (queueEvents_on (Completed jid None) b) = emits b
   \<and> deliver connected (es @ [(sid, ev, pl)])
        = deliver connected es @ (if sid \<in> set connected then [(sid, ev, pl)] else [])
   \<and> emits (queueEvents_on (Failed jid failedReason) b) = emits b
   \<and> consoleErrors (queueEvents_on (Failed jid failedReason) b)
        = consoleErrors b @ [''Job '' @ show_nat jid @ '' failed: '' @ failedReason]
   \<and> (exitCode r \<noteq> Some 0 \<and> routing uploadDir ts j = Some (scr, as, outName)
        \<and> None \<notin> set as \<and> jobData j ''socketId'' = Some sid \<and> sid \<noteq> [] \<longrightarrow>
        emits (bridge_all (processor uploadDir ts j r) b) =
          emits b @
          map (\<lambda>m. (sid, ''conversion-status'', Text m))
              (filter (\<lambda>m. m \<noteq> []) (map trim (stdoutChunks r)) @
               [''Error: '' @ ''Exit code '' @ show_code (exitCode r) @ '': '' @
                  slice 200 (concat (stderrChunks r))]))"
proof (intro conjI impI)
  assume "exitCode r \<noteq> Some 0 \<and> routing uploadDir ts j = Some (scr, as, outName)
        \<and> None \<notin> set as \<and> jobData j ''socketId'' = Some sid \<and> sid \<noteq> []"
  then show "emits (bridge_all (processor uploadDir ts j r) b) =
          emits b @
          map (\<lambda>m. (sid, ''conversion-status'', Text m))
              (filter (\<lambda>m. m \<noteq> []) (map trim (stdoutChunks r)) @
               [''Error: '' @ ''Exit code '' @ show_code (exitCode r) @ '': '' @
                  slice 200 (concat (stderrChunks r))])"
    using bridge_failure by blast
qed (simp_all add: io_emit_def deliver_def)

lemma show_code_1: "show_code (Some 1) = ''1''"
  by (simp add: show_code_def show_nat.simps digit_def)

text \<open>
  An instance: events for the client \<open>abc\<close>, and the failed OCR job.
\<close>

theorem bridge_forwards_progress_and_completion_witness:
  "''abc'' \<noteq> []
   \<and> emits (queueEvents_on (Progress 7 (Some (ProgressData ''Reading page 1'' (Some ''abc'')))) idle_bridge)
       = [(''abc'', ''conversion-status'', Text ''Reading page 1'')]
   \<and> emits (queueEvents_on (Completed 7 (Some (ReturnValue (Some ''abc'')
               [(''status'', JStr ''success'')]))) idle_bridge)
       = [(''abc'', ''conversion-finished'', Object [(''status'', JStr ''success'')])]
   \<and> exitCode tesseract_missing \<noteq> Some 0
   \<and> jobData ocr_job ''socketId'' = Some ''abc''
   \<and> emits (bridge_all (processor ''/app/uploads'' 42 ocr_job tesseract_missing) idle_bridge)
       = [(''abc'', ''conversion-status'', Text ''Error: Exit code 1: tesseract not found'')]"
proof -
  note T = bridge_forwards_progress_and_completion
    [where sid = "''abc''" and jid = 7 and b = idle_bridge and m = "''Reading page 1''"
       and res = "[(''status'', JStr ''success'')]" and r = tesseract_missing
       and uploadDir = "''/app/uploads''" and ts = 42 and j = ocr_job
       and scr = "''ocr_engine.py''"
       and as = "[Some ''/app/uploads/1-scan.png'', Some ''/app/uploads/ocr_42.txt'']"
       and outName = "''ocr_42.txt''" and connected = "[''abc'']" and es = "[]"
       and ev = "''conversion-status''" and pl = "Text ''Reading page 1''"
       and failedReason = "''Exit code 1: tesseract not found''"]
  have h1: "''abc'' \<noteq> []" by simp
  have h4: "None \<notin> set [Some ''/app/uploads/1-scan.png'', Some ''/app/uploads/ocr_42.txt'']"
    by simp
  have h2: "exitCode tesseract_missing \<noteq> Some 0" by (simp add: tesseract_missing_def)
  have h3: "jobData ocr_job ''socketId'' = Some ''abc''" by (simp add: ocr_job_def)
  have a: "emits (queueEvents_on (Progress 7 (Some (ProgressData ''Reading page 1'' (Some ''abc'')))) idle_bridge)
       = [(''abc'', ''conversion-status'', Text ''Reading page 1'')]"
    using T by (simp add: idle_bridge_def)
  have b: "emits (queueEvents_on (Completed 7 (Some (ReturnValue (Some ''abc'')
               [(''status'', JStr ''success'')]))) idle_bridge)
       = [(''abc'', ''conversion-finished'', Object [(''status'', JStr ''success'')])]"
    using T by (simp add: idle_bridge_def)
  have "emits (bridge_all (processor ''/app/uploads'' 42 ocr_job tesseract_missing) idle_bridge) =
          emits idle_bridge @
          map (\<lambda>m. (''abc'', ''conversion-status'', Text m))
              (filter (\<lambda>m. m \<noteq> []) (map trim (stdoutChunks tesseract_missing)) @
               [''Error: '' @ ''Exit code '' @ show_code (exitCode tesseract_missing) @ '': '' @
                  slice 200 (concat (stderrChunks tesseract_missing))])"
    using T h1 h2 h3 h4 ocr_job_routing by blast
  then have c: "emits (bridge_all (processor ''/app/uploads'' 42 ocr_job tesseract_missing) idle_bridge)
       = [(''abc'', ''conversion-status'', Text ''Error: Exit code 1: tesseract not found'')]"
    by (simp add: idle_bridge_def tesseract_missing_def show_code_1 slice_def)
  from h1 h2 h3 a b c show ?thesis by blast
qed

text \<open>
  C3 as stated fails: with the client \<open>abc\<close> connected, the failure event of its job makes
  the bridge emit nothing, and all the client receives from the failed run is a progress
  message, not a terminal failure event.
\<close>

theorem failure_event_is_not_forwarded:
  "processor ''/app/uploads'' 42 ocr_job tesseract_missing
     = [Progress 7 (Some (ProgressData ''Error: Exit code 1: tesseract not found'' (Some ''abc''))),
        Failed 7 ''Exit code 1: tesseract not found'']
   \<and> emits (queueEvents_on (Failed 7 ''Exit code 1: tesseract not found'') idle_bridge) = []
   \<and> deliver [''abc'']
        (emits (bridge_all (processor ''/app/uploads'' 42 ocr_job tesseract_missing) idle_bridge))
       = [(''abc'', ''conversion-status'', Text ''Error: Exit code 1: tesseract not found'')]"
proof -
  have h: "exitCode tesseract_missing \<noteq> Some 0" by (simp add: tesseract_missing_def)
  have p: "processor ''/app/uploads'' 42 ocr_job tesseract_missing
     = [Progress 7 (Some (ProgressData ''Error: Exit code 1: tesseract not found'' (Some ''abc''))),
        Failed 7 ''Exit code 1: tesseract not found'']"
    using processor_failure [OF h ocr_job_routing]
    by (simp add: tesseract_missing_def ocr_job_def show_code_1 slice_def onData_def)
  show ?thesis
    unfolding p by (simp add: bridge_all_def idle_bridge_def io_emit_def deliver_def)
qed

section \<open>Properties of the compression routes\<close>

lemma post_compress_pdf_options:
  assumes "reqFile req = Some f"
  shows "post_compress_pdf uploadDir ts req =
           Inr \<lparr>script = ''compressor.py'',
                 args = [path f, path_join uploadDir (''compressed_'' @ show_nat ts @ ''.pdf''),
                         or_default (reqBody req ''grayscale'') ''false'', ''true'',
                         or_default (reqBody req ''dpi'') ''150''],
                 socketId = reqBody req ''socketId'',
                 inputPaths = [path f],
                 outputFilename = ''compressed_'' @ show_nat ts @ ''.pdf''\<rparr>"
  using assms by (simp add: post_compress_pdf_def Let_def)

lemma routing_compress_pdf:
  assumes "jobName j = ''compress-pdf''"
  shows "routing uploadDir ts j =
           Some (''compressor.py'',
                 [jobData j ''inputPath'',
                  Some (path_join uploadDir (''compressed_'' @ show_nat ts @ ''.pdf'')),
                  jobData j ''grayscale'', Some ''true'', jobData j ''dpi''],
                 ''compressed_'' @ show_nat ts @ ''.pdf'')"
  using assms by (simp add: routing_def Let_def)

lemma io_emit_last:
  "sid \<noteq> [] \<Longrightarrow> last (io_emit (Some sid) ev pl es) = (sid, ev, pl)"
  by (simp add: io_emit_def)

lemma bridge_success_last:
  assumes "exitCode r = Some 0" "routing uploadDir ts j = Some (scr, as, outName)"
    "None \<notin> set as" "jobData j ''socketId'' = Some sid" "sid \<noteq> []"
  shows "last (emits (bridge_all (processor uploadDir ts j r) b)) =
           (sid, ''conversion-finished'',
            Object [(''status'', JStr ''success''),
                    (''downloadUrl'', JStr (''/download/'' @ outName)),
                    (''duration'',
                     JStr (case match_duration (concat (stdoutChunks r)) of
                             Some d \<Rightarrow> d | None \<Rightarrow> ''0.00'')),
                    (''file'', JStr outName)])"
  using assms
  by (simp add: processor_success bridge_all_append bridge_all_progress)
     (simp add: bridge_all_def io_emit_def)

text \<open>
  C8. For a compression job whose engine exits with code 0: the direct route and the
  worker's routing table both invoke \<open>compressor.py\<close> with the input path, the output
  path, grayscale, the constant \<open>true\<close> and dpi, in that order; the output file is named
  \<open>compressed_<timestamp>.pdf\<close>; and the last event sent to the client's room is
  \<open>conversion-finished\<close> with status \<open>success\<close> and the download reference
  \<open>/download/\<close> followed by that name.
\<close>

theorem compress_pdf_invocation_and_result:
  assumes "exitCode r = Some 0"
  shows "(reqFile req = Some f \<longrightarrow>
            (\<exists>opts. post_compress_pdf uploadDir ts req = Inr opts
               \<and> argv opts = [''python'', ''compressor.py'', path f,
                               path_join uploadDir (''compressed_'' @ show_nat ts @ ''.pdf''),
                               or_default (reqBody req ''grayscale'') ''false'', ''true'',
                               or_default (reqBody req ''dpi'') ''150'']
               \<and> outputFilename opts = ''compressed_'' @ show_nat ts @ ''.pdf''
               \<and> (reqBody req ''socketId'' = Some sid \<and> sid \<noteq> [] \<longrightarrow>
                    (\<exists>n. last (emitted (executeTask ttl now uploadDir opts r srv)) =
                       (sid, ''conversion-finished'',
                        Object [(''status'', JStr ''success''),
                                (''downloadUrl'',
                                 JStr (''/download/'' @ ''compressed_'' @ show_nat ts @ ''.pdf'')),
                                (''fileSize'', JNum n)])))))
       \<and> (jobName j = ''compress-pdf'' \<longrightarrow>
            routing uploadDir ts j =
              Some (''compressor.py'',
                    [jobData j ''inputPath'',
                     Some (path_join uploadDir (''compressed_'' @ show_nat ts @ ''.pdf'')),
                     jobData j ''grayscale'', Some ''true'', jobData j ''dpi''],
                    ''compressed_'' @ show_nat ts @ ''.pdf''))
       \<and> (jobName j = ''compress-pdf'' \<and> jobData j ''inputPath'' \<noteq> None
            \<and> jobData j ''grayscale'' \<noteq> None \<and> jobData j ''dpi'' \<noteq> None
            \<and> jobData j ''socketId'' = Some sid \<and> sid \<noteq> [] \<longrightarrow>
            (\<exists>d. last (emits (bridge_all (processor uploadDir ts j r) b)) =
               (sid, ''conversion-finished'',
                Object [(''status'', JStr ''success''),
                        (''downloadUrl'',
                         JStr (''/download/'' @ ''compressed_'' @ show_nat ts @ ''.pdf'')),
                        (''duration'', JStr d),
                        (''file'', JStr (''compressed_'' @ show_nat ts @ ''.pdf''))])))"
proof (intro conjI impI)
  assume f: "reqFile req = Some f"
  let ?opts = "\<lparr>script = ''compressor.py'',
                 args = [path f, path_join uploadDir (''compressed_'' @ show_nat ts @ ''.pdf''),
                         or_default (reqBody req ''grayscale'') ''false'', ''true'',
                         or_default (reqBody req ''dpi'') ''150''],
                 socketId = reqBody req ''socketId'',
                 inputPaths = [path f],
                 outputFilename = ''compressed_'' @ show_nat ts @ ''.pdf''\<rparr>"
  have "post_compress_pdf uploadDir ts req = Inr ?opts"
    using f by (rule post_compress_pdf_options)
  moreover have "argv ?opts = [''python'', ''compressor.py'', path f,
                               path_join uploadDir (''compressed_'' @ show_nat ts @ ''.pdf''),
                               or_default (reqBody req ''grayscale'') ''false'', ''true'',
                               or_default (reqBody req ''dpi'') ''150'']"
    by (simp add: argv_def)
  moreover have "outputFilename ?opts = ''compressed_'' @ show_nat ts @ ''.pdf''"
    by simp
  moreover have "reqBody req ''socketId'' = Some sid \<and> sid \<noteq> [] \<longrightarrow>
                    (\<exists>n. last (emitted (executeTask ttl now uploadDir ?opts r srv)) =
                       (sid, ''conversion-finished'',
                        Object [(''status'', JStr ''success''),
                                (''downloadUrl'',
                                 JStr (''/download/'' @ ''compressed_'' @ show_nat ts @ ''.pdf'')),
                                (''fileSize'', JNum n)]))"
    using assms by (simp add: executeTask_success_emitted io_emit_last)
  ultimately show "\<exists>opts. post_compress_pdf uploadDir ts req = Inr opts
               \<and> argv opts = [''python'', ''compressor.py'', path f,
                               path_join uploadDir (''compressed_'' @ show_nat ts @ ''.pdf''),
                               or_default (reqBody req ''grayscale'') ''false'', ''true'',
                               or_default (reqBody req ''dpi'') ''150'']
               \<and> outputFilename opts = ''compressed_'' @ show_nat ts @ ''.pdf''
               \<and> (reqBody req ''socketId'' = Some sid \<and> sid \<noteq> [] \<longrightarrow>
                    (\<exists>n. last (emitted (executeTask ttl now uploadDir opts r srv)) =
                       (sid, ''conversion-finished'',
                        Object [(''status'', JStr ''success''),
                                (''downloadUrl'',
                                 JStr (''/download/'' @ ''compressed_'' @ show_nat ts @ ''.pdf'')),
                                (''fileSize'', JNum n)])))"
    by blast
next
  assume "jobName j = ''compress-pdf''"
  then show "routing uploadDir ts j =
              Some (''compressor.py'',
                    [jobData j ''inputPath'',
                     Some (path_join uploadDir (''compressed_'' @ show_nat ts @ ''.pdf'')),
                     jobData j ''grayscale'', Some ''true'', jobData j ''dpi''],
                    ''compressed_'' @ show_nat ts @ ''.pdf'')"
    by (rule routing_compress_pdf)
next
  assume a: "jobName j = ''compress-pdf'' \<and> jobData j ''inputPath'' \<noteq> None
            \<and> jobData j ''grayscale'' \<noteq> None \<and> jobData j ''dpi'' \<noteq> None
            \<and> jobData j ''socketId'' = Some sid \<and> sid \<noteq> []"
  then have rt: "routing uploadDir ts j =
              Some (''compressor.py'',
                    [jobData j ''inputPath'',
                     Some (path_join uploadDir (''compressed_'' @ show_nat ts @ ''.pdf'')),
                     jobData j ''grayscale'', Some ''true'', jobData j ''dpi''],
                    ''compressed_'' @ show_nat ts @ ''.pdf'')"
    by (simp add: routing_compress_pdf)
  have defined: "None \<notin> set [jobData j ''inputPath'',
                     Some (path_join uploadDir (''compressed_'' @ show_nat ts @ ''.pdf'')),
                     jobData j ''grayscale'', Some ''true'', jobData j ''dpi'']"
    using a by auto
  from a have sid: "jobData j ''socketId'' = Some sid" "sid \<noteq> []" by blast+
  show "\<exists>d. last (emits (bridge_all (processor uploadDir ts j r) b)) =
               (sid, ''conversion-finished'',
                Object [(''status'', JStr ''success''),
                        (''downloadUrl'',
                         JStr (''/download/'' @ ''compressed_'' @ show_nat ts @ ''.pdf'')),
                        (''duration'', JStr d),
                        (''file'', JStr (''compressed_'' @ show_nat ts @ ''.pdf''))])"
    using bridge_success_last [OF assms rt defined sid] by blast
qed

text \<open>
  An instance: the request with grayscale \<open>true\<close> and dpi \<open>100\<close>, at time 42.
\<close>

theorem compress_pdf_invocation_and_result_witness:
  "exitCode timed_run = Some 0
   \<and> reqFile compress_request = Some \<lparr>path = ''/app/uploads/1-a.pdf'', originalname = ''a.pdf''\<rparr>
   \<and> reqBody compress_request ''socketId'' = Some ''abc''
   \<and> (\<exists>opts. post_compress_pdf ''/app/uploads'' 42 compress_request = Inr opts
         \<and> argv opts = [''python'', ''compressor.py'', ''/app/uploads/1-a.pdf'',
                         ''/app/uploads/compressed_42.pdf'', ''true'', ''true'', ''100'']
         \<and> outputFilename opts = ''compressed_42.pdf''
         \<and> (\<exists>n. last (emitted (executeTask 300000 5000 ''/app/uploads'' opts timed_run
                                   (idle_server ocr_disk))) =
                (''abc'', ''conversion-finished'',
                 Object [(''status'', JStr ''success''),
                         (''downloadUrl'', JStr ''/download/compressed_42.pdf''),
                         (''fileSize'', JNum n)])))
   \<and> jobName compress_job = ''compress-pdf''
   \<and> routing ''/app/uploads'' 42 compress_job =
       Some (''compressor.py'',
             [Some ''/app/uploads/1-a.pdf'', Some ''/app/uploads/compressed_42.pdf'', Some ''true'',
              Some ''true'', Some ''100''],
             ''compressed_42.pdf'')
   \<and> (\<exists>d. last (emits (bridge_all (processor ''/app/uploads'' 42 compress_job timed_run)
                           idle_bridge)) =
          (''abc'', ''conversion-finished'',
           Object [(''status'', JStr ''success''),
                   (''downloadUrl'', JStr ''/download/compressed_42.pdf''),
                   (''duration'', JStr d),
                   (''file'', JStr ''compressed_42.pdf'')]))"
proof -
  have h1: "exitCode timed_run = Some 0"
    by (simp add: timed_run_def)
  have h2: "reqFile compress_request = Some \<lparr>path = ''/app/uploads/1-a.pdf'', originalname = ''a.pdf''\<rparr>"
    and h3: "reqBody compress_request ''socketId'' = Some ''abc''"
    and body: "or_default (reqBody compress_request ''grayscale'') ''false'' = ''true''"
              "or_default (reqBody compress_request ''dpi'') ''150'' = ''100''"
    by (simp_all add: compress_request_def or_default_def)
  have h4: "jobName compress_job = ''compress-pdf''"
    and h5: "jobData compress_job ''inputPath'' \<noteq> None \<and> jobData compress_job ''grayscale'' \<noteq> None
             \<and> jobData compress_job ''dpi'' \<noteq> None \<and> jobData compress_job ''socketId'' = Some ''abc''
             \<and> ''abc'' \<noteq> []"
    by (simp_all add: compress_job_def)
  note T = compress_pdf_invocation_and_result
    [OF h1, where req = compress_request
       and f = "\<lparr>path = ''/app/uploads/1-a.pdf'', originalname = ''a.pdf''\<rparr>"
       and uploadDir = "''/app/uploads''" and ts = 42 and sid = "''abc''" and ttl = 300000
       and now = 5000 and srv = "idle_server ocr_disk" and j = compress_job and b = idle_bridge]
  have a: "\<exists>opts. post_compress_pdf ''/app/uploads'' 42 compress_request = Inr opts
         \<and> argv opts = [''python'', ''compressor.py'', ''/app/uploads/1-a.pdf'',
                         ''/app/uploads/compressed_42.pdf'', ''true'', ''true'', ''100'']
         \<and> outputFilename opts = ''compressed_42.pdf''
         \<and> (\<exists>n. last (emitted (executeTask 300000 5000 ''/app/uploads'' opts timed_run
                                   (idle_server ocr_disk))) =
                (''abc'', ''conversion-finished'',
                 Object [(''status'', JStr ''success''),
                         (''downloadUrl'', JStr ''/download/compressed_42.pdf''),
                         (''fileSize'', JNum n)]))"
    using T h2 h3 by (simp add: body show_nat_42 path_join_def)
  have c: "\<exists>d. last (emits (bridge_all (processor ''/app/uploads'' 42 compress_job timed_run)
                           idle_bridge)) =
          (''abc'', ''conversion-finished'',
           Object [(''status'', JStr ''success''),
                   (''downloadUrl'', JStr ''/download/compressed_42.pdf''),
                   (''duration'', JStr d),
                   (''file'', JStr ''compressed_42.pdf'')])"
    using T h4 h5 by (simp add: show_nat_42)
  from h1 h2 h3 a h4 compress_job_routing c show ?thesis by blast
qed

lemma queue_add_last:
  "queue (queue_add n props g) =
     queue g @ [\<lparr>jobId = nextJobId g, jobName = n,
                 jobData = map_of (concat (map (\<lambda>(k, v). case v of None \<Rightarrow> [] | Some s \<Rightarrow> [(k, s)]) props)),
                 jobParams = Map.empty, jobInputPaths = []\<rparr>]"
  by (simp add: queue_add_def)

lemma queued_post_compress_pdf_job:
  assumes "reqFile req = Some f"
  shows "\<exists>j. queue (snd (queued_post_compress_pdf ttl now req g)) = queue g @ [j]
           \<and> jobName j = ''compress-pdf''
           \<and> jobData j ''inputPath'' = Some (path f)
           \<and> jobData j ''grayscale'' = Some (or_default (reqBody req ''grayscale'') ''false'')
           \<and> jobData j ''dpi'' = Some (or_default (reqBody req ''dpi'') ''150'')
           \<and> jobData j ''socketId'' = reqBody req ''socketId''"
  using assms
  by (cases "reqBody req ''socketId''")
     (simp_all add: queued_post_compress_pdf_def Let_def queue_add_last)

text \<open>
  C10. For every compression request with a file, in the direct route and in the queued
  route alike: the strip_meta slot of the engine's arguments is the constant \<open>true\<close>, an
  absent grayscale option becomes \<open>false\<close>, an absent dpi option becomes \<open>150\<close>, and an
  option that is present and not empty is passed on as it is.
\<close>

theorem compress_pdf_defaults:
  assumes "reqFile req = Some f"
  shows "(\<exists>opts. post_compress_pdf uploadDir ts req = Inr opts
            \<and> length (args opts) = 5
            \<and> args opts ! 3 = ''true''
            \<and> args opts ! 2 = or_default (reqBody req ''grayscale'') ''false''
            \<and> args opts ! 4 = or_default (reqBody req ''dpi'') ''150'')
       \<and> (\<exists>j scr as out. queue (snd (queued_post_compress_pdf ttl now req g)) = queue g @ [j]
            \<and> jobName j = ''compress-pdf''
            \<and> jobData j ''grayscale'' = Some (or_default (reqBody req ''grayscale'') ''false'')
            \<and> jobData j ''dpi'' = Some (or_default (reqBody req ''dpi'') ''150'')
            \<and> routing uploadDir ts j = Some (scr, as, out)
            \<and> length as = 5
            \<and> as ! 3 = Some ''true''
            \<and> as ! 2 = Some (or_default (reqBody req ''grayscale'') ''false'')
            \<and> as ! 4 = Some (or_default (reqBody req ''dpi'') ''150''))
       \<and> (reqBody req ''grayscale'' = None \<longrightarrow> or_default (reqBody req ''grayscale'') ''false'' = ''false'')
       \<and> (reqBody req ''dpi'' = None \<longrightarrow> or_default (reqBody req ''dpi'') ''150'' = ''150'')
       \<and> (reqBody req ''grayscale'' = Some v \<and> v \<noteq> [] \<longrightarrow>
            or_default (reqBody req ''grayscale'') ''false'' = v)
       \<and> (reqBody req ''dpi'' = Some w \<and> w \<noteq> [] \<longrightarrow> or_default (reqBody req ''dpi'') ''150'' = w)"
proof (intro conjI impI)
  show "\<exists>opts. post_compress_pdf uploadDir ts req = Inr opts
            \<and> length (args opts) = 5
            \<and> args opts ! 3 = ''true''
            \<and> args opts ! 2 = or_default (reqBody req ''grayscale'') ''false''
            \<and> args opts ! 4 = or_default (reqBody req ''dpi'') ''150''"
    using assms by (simp add: post_compress_pdf_options)
next
  from queued_post_compress_pdf_job [OF assms] obtain j where
    q: "queue (snd (queued_post_compress_pdf ttl now req g)) = queue g @ [j]"
    and n: "jobName j = ''compress-pdf''"
    and gs: "jobData j ''grayscale'' = Some (or_default (reqBody req ''grayscale'') ''false'')"
    and dp: "jobData j ''dpi'' = Some (or_default (reqBody req ''dpi'') ''150'')"
    by blast
  let ?as = "[jobData j ''inputPath'',
              Some (path_join uploadDir (''compressed_'' @ show_nat ts @ ''.pdf'')),
              jobData j ''grayscale'', Some ''true'', jobData j ''dpi'']"
  have rt: "routing uploadDir ts j = Some (''compressor.py'', ?as, ''compressed_'' @ show_nat ts @ ''.pdf'')"
    using n by (rule routing_compress_pdf)
  have slots: "length ?as = 5" "?as ! 3 = Some ''true''"
    "?as ! 2 = Some (or_default (reqBody req ''grayscale'') ''false'')"
    "?as ! 4 = Some (or_default (reqBody req ''dpi'') ''150'')"
    by (simp_all add: gs dp)
  from q n gs dp rt slots
  show "\<exists>j scr as out. queue (snd (queued_post_compress_pdf ttl now req g)) = queue g @ [j]
            \<and> jobName j = ''compress-pdf''
            \<and> jobData j ''grayscale'' = Some (or_default (reqBody req ''grayscale'') ''false'')
            \<and> jobData j ''dpi'' = Some (or_default (reqBody req ''dpi'') ''150'')
            \<and> routing uploadDir ts j = Some (scr, as, out)
            \<and> length as = 5
            \<and> as ! 3 = Some ''true''
            \<and> as ! 2 = Some (or_default (reqBody req ''grayscale'') ''false'')
            \<and> as ! 4 = Some (or_default (reqBody req ''dpi'') ''150'')"
    by blast
qed (simp_all add: or_default_def)

text \<open>
  Two instances: a request without the two options, and the request with grayscale
  \<open>true\<close> and dpi \<open>100\<close>.
\<close>

theorem compress_pdf_defaults_witness:
  "reqFile bare_compress_request = Some \<lparr>path = ''/app/uploads/1-a.pdf'', originalname = ''a.pdf''\<rparr>
   \<and> reqBody bare_compress_request ''grayscale'' = None
   \<and> reqBody bare_compress_request ''dpi'' = None
   \<and> (\<exists>opts. post_compress_pdf ''/app/uploads'' 42 bare_compress_request = Inr opts
          \<and> args opts ! 2 = ''false'' \<and> args opts ! 3 = ''true'' \<and> args opts ! 4 = ''150'')
   \<and> (\<exists>j scr as out.
          queue (snd (queued_post_compress_pdf 300000 4000 bare_compress_request (idle_gateway ocr_disk)))
            = queue (idle_gateway ocr_disk) @ [j]
          \<and> routing ''/app/uploads'' 42 j = Some (scr, as, out)
          \<and> as ! 2 = Some ''false'' \<and> as ! 3 = Some ''true'' \<and> as ! 4 = Some ''150'')
   \<and> reqBody compress_request ''grayscale'' = Some ''true''
   \<and> reqBody compress_request ''dpi'' = Some ''100''
   \<and> (\<exists>opts. post_compress_pdf ''/app/uploads'' 42 compress_request = Inr opts
          \<and> args opts ! 2 = ''true'' \<and> args opts ! 3 = ''true'' \<and> args opts ! 4 = ''100'')"
proof -
  have f1: "reqFile bare_compress_request = Some \<lparr>path = ''/app/uploads/1-a.pdf'', originalname = ''a.pdf''\<rparr>"
    and g1: "reqBody bare_compress_request ''grayscale'' = None"
    and d1: "reqBody bare_compress_request ''dpi'' = None"
    by (simp_all add: bare_compress_request_def)
  have f2: "reqFile compress_request = Some \<lparr>path = ''/app/uploads/1-a.pdf'', originalname = ''a.pdf''\<rparr>"
    and g2: "reqBody compress_request ''grayscale'' = Some ''true''"
    and d2: "reqBody compress_request ''dpi'' = Some ''100''"
    by (simp_all add: compress_request_def)
  note T1 = compress_pdf_defaults
    [OF f1, where uploadDir = "''/app/uploads''" and ts = 42 and ttl = 300000 and now = 4000
       and g = "idle_gateway ocr_disk"]
  note T2 = compress_pdf_defaults
    [OF f2, where uploadDir = "''/app/uploads''" and ts = 42 and v = "''true''" and w = "''100''"]
  from T1 g1 d1 have b1: "or_default (reqBody bare_compress_request ''grayscale'') ''false'' = ''false''"
    and b2: "or_default (reqBody bare_compress_request ''dpi'') ''150'' = ''150''"
    by blast+
  from T2 g2 d2 have c1: "or_default (reqBody compress_request ''grayscale'') ''false'' = ''true''"
    and c2: "or_default (reqBody compress_request ''dpi'') ''150'' = ''100''"
    by simp_all
  have a: "\<exists>opts. post_compress_pdf ''/app/uploads'' 42 bare_compress_request = Inr opts
          \<and> args opts ! 2 = ''false'' \<and> args opts ! 3 = ''true'' \<and> args opts ! 4 = ''150''"
    using T1 unfolding b1 b2 by blast
  have b: "\<exists>j scr as out.
          queue (snd (queued_post_compress_pdf 300000 4000 bare_compress_request (idle_gateway ocr_disk)))
            = queue (idle_gateway ocr_disk) @ [j]
          \<and> routing ''/app/uploads'' 42 j = Some (scr, as, out)
          \<and> as ! 2 = Some ''false'' \<and> as ! 3 = Some ''true'' \<and> as ! 4 = Some ''150''"
    using T1 unfolding b1 b2 by blast
  have c: "\<exists>opts. post_compress_pdf ''/app/uploads'' 42 compress_request = Inr opts
          \<and> args opts ! 2 = ''true'' \<and> args opts ! 3 = ''true'' \<and> args opts ! 4 = ''100''"
    using T2 unfolding c1 c2 by blast
  from f1 g1 d1 a b g2 d2 c show ?thesis by blast
qed

section \<open>The secret key of a PDF conversion\<close>

lemma queued_post_convert_job:
  assumes "reqFile req = Some f"
  shows "\<exists>j. queue (snd (queued_post_convert ttl now req g)) = queue g @ [j]
           \<and> jobName j = ''pdf-to-doc''
           \<and> jobData j ''inputPath'' = Some (path f)
           \<and> jobData j ''secretKey'' = Some (or_default (reqBody req ''secretKey'') [])"
  using assms
  by (cases "reqBody req ''socketId''")
     (simp_all add: queued_post_convert_def Let_def queue_add_last)

lemma falsy_or_default: "\<not> truthy v \<Longrightarrow> or_default v d = d"
  by (auto simp: truthy_def or_default_def split: option.splits)

text \<open>
  C2, on the code. For a conversion request with a file and an empty or absent
  \<open>secretKey\<close>, the direct route of server.js answers 400 \<open>Missing encryption key\<close> and
  runs nothing, while the queued route of server2.js answers "queued" and adds a
  \<open>pdf-to-doc\<close> job whose \<open>secretKey\<close> is the empty string, which the worker passes to
  the engine.
\<close>

theorem queued_convert_enqueues_without_key:
  assumes "reqFile req = Some f" and "\<not> truthy (reqBody req ''secretKey'')"
  shows "post_convert uploadDir ts req = Inl (400, [(''error'', JStr ''Missing encryption key'')])
       \<and> fst (queued_post_convert ttl now req g) = queued
       \<and> (\<exists>j. queue (snd (queued_post_convert ttl now req g)) = queue g @ [j]
             \<and> jobName j = ''pdf-to-doc''
             \<and> jobData j ''secretKey'' = Some []
             \<and> (\<exists>scr as out. routing uploadDir ts j = Some (scr, as, out) \<and> as ! 3 = Some []))"
proof (intro conjI)
  show "post_convert uploadDir ts req = Inl (400, [(''error'', JStr ''Missing encryption key'')])"
    using assms by (simp add: post_convert_def Let_def falsy_or_default)
  show "fst (queued_post_convert ttl now req g) = queued"
    using assms(1) by (simp add: queued_post_convert_def Let_def)
  from queued_post_convert_job [OF assms(1)] obtain j where
    q: "queue (snd (queued_post_convert ttl now req g)) = queue g @ [j]"
    and n: "jobName j = ''pdf-to-doc''"
    and k: "jobData j ''secretKey'' = Some (or_default (reqBody req ''secretKey'') [])"
    by blast
  from k assms(2) have k': "jobData j ''secretKey'' = Some []"
    by (simp add: falsy_or_default)
  let ?as = "[jobData j ''inputPath'', jobData j ''tool'',
              Some (path_join uploadDir (''converted_'' @ show_nat ts @ ''.docx'')),
              jobData j ''secretKey'']"
  have rt: "routing uploadDir ts j = Some (''convert.py'', ?as, ''converted_'' @ show_nat ts @ ''.docx'')"
    using n by (simp add: routing_def Let_def)
  have "?as ! 3 = Some []"
    by (simp add: k')
  with q n k' rt
  show "\<exists>j. queue (snd (queued_post_convert ttl now req g)) = queue g @ [j]
             \<and> jobName j = ''pdf-to-doc''
             \<and> jobData j ''secretKey'' = Some []
             \<and> (\<exists>scr as out. routing uploadDir ts j = Some (scr, as, out) \<and> as ! 3 = Some [])"
    by blast
qed

text \<open>
  An instance: a request whose \<open>secretKey\<close> field is the empty string.
\<close>

theorem queued_convert_enqueues_without_key_witness:
  "reqFile keyless_request = Some \<lparr>path = ''/app/uploads/1-a.pdf'', originalname = ''a.pdf''\<rparr>
   \<and> \<not> truthy (reqBody keyless_request ''secretKey'')
   \<and> post_convert ''/app/uploads'' 42 keyless_request
       = Inl (400, [(''error'', JStr ''Missing encryption key'')])
   \<and> fst (queued_post_convert 300000 4000 keyless_request (idle_gateway ocr_disk))
       = (200, [(''status'', JStr ''queued''), (''message'', JStr ''Queued...'')])
   \<and> (\<exists>j. queue (snd (queued_post_convert 300000 4000 keyless_request (idle_gateway ocr_disk))) = [j]
         \<and> jobName j = ''pdf-to-doc''
         \<and> jobData j ''secretKey'' = Some [])"
proof -
  have h1: "reqFile keyless_request = Some \<lparr>path = ''/app/uploads/1-a.pdf'', originalname = ''a.pdf''\<rparr>"
    and h2: "\<not> truthy (reqBody keyless_request ''secretKey'')"
    by (simp_all add: keyless_request_def truthy_def)
  note T = queued_convert_enqueues_without_key
    [OF h1 h2, where uploadDir = "''/app/uploads''" and ts = 42 and ttl = 300000 and now = 4000
       and g = "idle_gateway ocr_disk"]
  have e: "queue (idle_gateway ocr_disk) = []"
    by (simp add: idle_gateway_def)
  from T have "\<exists>j. queue (snd (queued_post_convert 300000 4000 keyless_request (idle_gateway ocr_disk))) = [j]
         \<and> jobName j = ''pdf-to-doc''
         \<and> jobData j ''secretKey'' = Some []"
    unfolding e by auto
  with h1 h2 T show ?thesis
    unfolding queued_def by blast
qed

section \<open>Pending deletions\<close>

lemma pending_scheduleDeletion_keeps:
  "pending s p due \<Longrightarrow> pending (scheduleDeletion ttl now q s) p due"
  by (auto simp: pending_def scheduleDeletion_def)

lemma scheduleDeletion_registers:
  "p \<noteq> [] \<Longrightarrow> disk s p \<noteq> None \<Longrightarrow> deletionTimers s p = None
     \<Longrightarrow> pending (scheduleDeletion ttl now p s) p (now + ttl)"
  by (auto simp: pending_def scheduleDeletion_def)

lemma scheduleDeletion_new_key:
  "deletionTimers s p = None \<Longrightarrow> deletionTimers (scheduleDeletion ttl now q s) p \<noteq> None
     \<Longrightarrow> pending (scheduleDeletion ttl now q s) p (now + ttl)"
  by (auto simp: pending_def scheduleDeletion_def split: if_splits)

lemma fold_pending_keeps:
  "pending s p due \<Longrightarrow> pending (fold (scheduleDeletion ttl now) ps s) p due"
  by (induction ps arbitrary: s) (simp_all add: pending_scheduleDeletion_keeps)

lemma fold_new_key:
  "deletionTimers s p = None \<Longrightarrow> deletionTimers (fold (scheduleDeletion ttl now) ps s) p \<noteq> None
     \<Longrightarrow> pending (fold (scheduleDeletion ttl now) ps s) p (now + ttl)"
proof (induction ps arbitrary: s)
  case Nil
  then show ?case by simp
next
  case (Cons x xs)
  show ?case
  proof (cases "deletionTimers (scheduleDeletion ttl now x s) p = None")
    case True
    with Cons.IH [of "scheduleDeletion ttl now x s"] Cons.prems(2) show ?thesis by simp
  next
    case False
    with Cons.prems(1) have "pending (scheduleDeletion ttl now x s) p (now + ttl)"
      by (rule scheduleDeletion_new_key)
    then show ?thesis by (simp add: fold_pending_keeps)
  qed
qed


lemma scheduleDeletion_unlinking: "unlinking (scheduleDeletion ttl now p s) = unlinking s"
  by (simp add: scheduleDeletion_def)

lemma fold_scheduleDeletion_unlinking:
  "unlinking (fold (scheduleDeletion ttl now) ps s) = unlinking s"
  by (induction ps arbitrary: s) (simp_all add: scheduleDeletion_unlinking)

lemma timers_ok_fold_scheduleDeletion:
  "timers_ok s \<Longrightarrow> timers_ok (fold (scheduleDeletion ttl now) ps s)"
  by (induction ps arbitrary: s) (simp_all add: timers_ok_scheduleDeletion)

lemma keys_ok_initial: "keys_ok (initial d)"
  by (simp add: keys_ok_def initial_def)

lemma keys_ok_scheduleDeletion: "keys_ok s \<Longrightarrow> keys_ok (scheduleDeletion ttl now p s)"
  by (auto simp: keys_ok_def scheduleDeletion_def outstanding_def timeout_path_def)

lemma keys_ok_fold_scheduleDeletion:
  "keys_ok s \<Longrightarrow> keys_ok (fold (scheduleDeletion ttl now) ps s)"
  by (induction ps arbitrary: s) (simp_all add: keys_ok_scheduleDeletion)

lemma keys_ok_disk: "keys_ok (s\<lparr>disk := d\<rparr>) = keys_ok s"
  by (simp add: keys_ok_def outstanding_def)

lemma keys_ok_scan: "keys_ok s \<Longrightarrow> keys_ok (scanAndCleanup ttl now dir files s)"
  using scanAndCleanup_timers [of ttl now dir files s]
  by (simp add: keys_ok_def outstanding_def)

lemma keys_ok_unlinkCallback:
  assumes "keys_ok s"
  shows "keys_ok (unlinkCallback p s)"
proof (cases "p \<in> set (unlinking s)")
  case False
  with assms show ?thesis by (simp add: unlinkCallback_def)
next
  case True
  have "q \<in> set (outstanding (unlinkCallback p s))"
    if "deletionTimers (unlinkCallback p s) q \<noteq> None" for q
  proof -
    from that True have qp: "q \<noteq> p" and "deletionTimers s q \<noteq> None"
      by (auto simp: unlinkCallback_def split: if_splits)
    with assms have "q \<in> set (outstanding s)" by (simp add: keys_ok_def)
    with qp True show ?thesis
      by (auto simp: unlinkCallback_def outstanding_def)
  qed
  then show ?thesis by (simp add: keys_ok_def)
qed

lemma keys_ok_timerFires:
  assumes "keys_ok s" "timers_ok s"
  shows "keys_ok (timerFires now h s)"
proof (cases "filter (\<lambda>t. fst t = h \<and> snd (snd t) \<le> now) (timeouts s)")
  case Nil
  with assms show ?thesis by (simp add: timerFires_def)
next
  case (Cons t ts)
  then have "t \<in> set (filter (\<lambda>t. fst t = h \<and> snd (snd t) \<le> now) (timeouts s))"
    by simp
  then have t_in: "t \<in> set (timeouts s)" and t_h: "fst t = h"
    by simp_all
  have inj: "inj_on fst (set (timeouts s))"
    using assms(2) by (simp add: timers_ok_def distinct_map)
  have "q \<in> set (outstanding (timerFires now h s))"
    if "deletionTimers (timerFires now h s) q \<noteq> None" for q
  proof -
    from that Cons have "deletionTimers s q \<noteq> None"
      by (simp add: timerFires_def)
    with assms(1) have "q \<in> set (outstanding s)" by (simp add: keys_ok_def)
    then consider u where "u \<in> set (timeouts s)" "timeout_path u = q" | "q \<in> set (unlinking s)"
      by (auto simp: outstanding_def)
    then show ?thesis
    proof cases
      case 1
      show ?thesis
      proof (cases "fst u = h")
        case True
        with inj 1(1) t_in t_h have "u = t" by (auto dest: inj_onD)
        with 1(2) Cons show ?thesis
          by (simp add: timerFires_def outstanding_def)
      next
        case False
        with 1 Cons show ?thesis
          by (auto simp: timerFires_def outstanding_def)
      qed
    next
      case 2
      with Cons show ?thesis
        by (simp add: timerFires_def outstanding_def)
    qed
  qed
  then show ?thesis by (simp add: keys_ok_def)
qed

lemma keys_ok_step: "keys_ok s \<Longrightarrow> timers_ok s \<Longrightarrow> keys_ok (step ttl ev s)"
  by (cases ev)
     (simp_all add: keys_ok_scheduleDeletion keys_ok_timerFires keys_ok_unlinkCallback
        keys_ok_scan keys_ok_disk)

lemma keys_ok_run: "keys_ok s \<Longrightarrow> timers_ok s \<Longrightarrow> keys_ok (run ttl evs s)"
  unfolding run_def
  by (induction evs arbitrary: s) (simp_all add: keys_ok_step timers_ok_step)

lemma reachable_key_outstanding:
  assumes "deletionTimers (run ttl evs (initial d)) p \<noteq> None"
  shows "p \<in> set (map timeout_path (timeouts (run ttl evs (initial d))))
         \<or> p \<in> set (unlinking (run ttl evs (initial d)))"
proof -
  have "keys_ok (run ttl evs (initial d))"
    by (intro keys_ok_run keys_ok_initial timers_ok_initial)
  with assms show ?thesis
    by (auto simp: keys_ok_def outstanding_def)
qed

section \<open>The output of a failed task\<close>


lemma onClose_failure_pending_keeps:
  assumes "code \<noteq> Some 0" "pending (cleanup srv) p due"
  shows "pending (cleanup (onClose ttl now uploadDir opts buf code srv)) p due"
proof -
  have "pending (fold (scheduleDeletion ttl now) (inputPaths opts) (cleanup srv)) p due"
    using assms(2) by (rule fold_pending_keeps)
  then show ?thesis
    using assms(1)
    by (simp add: onClose_failure_cleanup Let_def pending_scheduleDeletion_keeps del: not_None_eq)
qed

lemma onClose_failure_output_pending:
  assumes "code \<noteq> Some 0"
    "disk (cleanup srv) (path_join uploadDir (outputFilename opts)) \<noteq> None"
    "deletionTimers (cleanup srv) (path_join uploadDir (outputFilename opts)) = None"
  shows "pending (cleanup (onClose ttl now uploadDir opts buf code srv))
           (path_join uploadDir (outputFilename opts)) (now + ttl)"
proof -
  let ?s1 = "fold (scheduleDeletion ttl now) (inputPaths opts) (cleanup srv)"
  let ?out = "path_join uploadDir (outputFilename opts)"
  have ex: "disk ?s1 ?out \<noteq> None"
    using assms(2) by (simp add: fold_scheduleDeletion_disk)
  have "pending (scheduleDeletion ttl now ?out ?s1) ?out (now + ttl)"
  proof (cases "deletionTimers ?s1 ?out = None")
    case True
    with ex show ?thesis
      using path_join_nonempty scheduleDeletion_registers by blast
  next
    case False
    with assms(3) have "pending ?s1 ?out (now + ttl)"
      by (rule fold_new_key)
    then show ?thesis by (rule pending_scheduleDeletion_keeps)
  qed
  then show ?thesis
    using assms(1) ex
    by (simp add: onClose_failure_cleanup Let_def del: not_None_eq)
qed

lemma onClose_failure_reachable:
  assumes "code \<noteq> Some 0" "timers_ok (cleanup srv)" "keys_ok (cleanup srv)"
  shows "timers_ok (cleanup (onClose ttl now uploadDir opts buf code srv))"
    and "keys_ok (cleanup (onClose ttl now uploadDir opts buf code srv))"
    and "unlinking (cleanup (onClose ttl now uploadDir opts buf code srv)) = unlinking (cleanup srv)"
  using assms
  by (simp_all add: onClose_failure_cleanup Let_def timers_ok_fold_scheduleDeletion
      timers_ok_scheduleDeletion keys_ok_fold_scheduleDeletion keys_ok_scheduleDeletion
      fold_scheduleDeletion_unlinking scheduleDeletion_unlinking del: not_None_eq)

text \<open>
  C9. When the engine exits with a code other than 0 and a file exists at the resolved
  output path, \<open>executeTask\<close> leaves that path as a key of \<open>deletionTimers\<close>. If the path
  was not a key before, a timeout for it, due one TTL after the exit, is pending
  afterwards; a timeout for it that was pending before is still pending. In every state a
  server can reach from its start the key stands for a pending timeout or for an unlink
  that an earlier timer has issued, and there is at most one pending timeout for the path.
\<close>

theorem failed_task_schedules_existing_output:
  assumes "exitCode r \<noteq> Some 0"
    and "disk (cleanup srv) (path_join uploadDir (outputFilename opts)) \<noteq> None"
  shows "deletionTimers (cleanup (executeTask ttl now uploadDir opts r srv))
           (path_join uploadDir (outputFilename opts)) \<noteq> None
       \<and> (deletionTimers (cleanup srv) (path_join uploadDir (outputFilename opts)) = None \<longrightarrow>
            pending (cleanup (executeTask ttl now uploadDir opts r srv))
              (path_join uploadDir (outputFilename opts)) (now + ttl))
       \<and> (pending (cleanup srv) (path_join uploadDir (outputFilename opts)) due \<longrightarrow>
            pending (cleanup (executeTask ttl now uploadDir opts r srv))
              (path_join uploadDir (outputFilename opts)) due)
       \<and> (cleanup srv = run ttl evs (initial d) \<longrightarrow>
            (path_join uploadDir (outputFilename opts)
               \<in> set (map timeout_path (timeouts (cleanup (executeTask ttl now uploadDir opts r srv))))
             \<or> path_join uploadDir (outputFilename opts) \<in> set (unlinking (cleanup srv)))
            \<and> length (filter (\<lambda>t. timeout_path t = path_join uploadDir (outputFilename opts))
                 (timeouts (cleanup (executeTask ttl now uploadDir opts r srv)))) \<le> 1)"
proof (intro conjI impI)
  let ?out = "path_join uploadDir (outputFilename opts)"
  let ?after = "cleanup (executeTask ttl now uploadDir opts r srv)"
  show key: "deletionTimers ?after ?out \<noteq> None"
    using assms unfolding executeTask_def by (simp add: onClose_failure_output)
  show "pending ?after ?out (now + ttl)" if "deletionTimers (cleanup srv) ?out = None"
    using assms that unfolding executeTask_def by (simp add: onClose_failure_output_pending)
  show "pending ?after ?out due" if "pending (cleanup srv) ?out due"
    using assms(1) that unfolding executeTask_def by (simp add: onClose_failure_pending_keeps)
  {
    assume reach: "cleanup srv = run ttl evs (initial d)"
    have ok: "timers_ok (cleanup srv)" "keys_ok (cleanup srv)"
      unfolding reach
      by (intro timers_ok_run keys_ok_run keys_ok_initial timers_ok_initial)+
    have t: "timers_ok ?after" and k: "keys_ok ?after"
      and u: "unlinking ?after = unlinking (cleanup srv)"
      using assms(1) ok unfolding executeTask_def
      by (simp_all add: onClose_failure_reachable)
    from k key have "?out \<in> set (outstanding ?after)"
      by (simp add: keys_ok_def)
    then show "?out \<in> set (map timeout_path (timeouts ?after)) \<or> ?out \<in> set (unlinking (cleanup srv))"
      using u by (auto simp: outstanding_def)
    from t show "length (filter (\<lambda>t. timeout_path t = ?out) (timeouts ?after)) \<le> 1"
      by (rule timers_ok_at_most_one)
  }
qed

text \<open>
  Two instances: the OCR engine fails after it has written a partial output that nothing
  has scheduled yet, and the same failure when the output is already scheduled.
\<close>

theorem failed_task_schedules_existing_output_witness:
  "exitCode tesseract_missing \<noteq> Some 0
   \<and> disk (cleanup (idle_server ocr_partial_disk)) (path_join ''/app/uploads'' (outputFilename ocr_options))
       \<noteq> None
   \<and> deletionTimers (cleanup (idle_server ocr_partial_disk))
        (path_join ''/app/uploads'' (outputFilename ocr_options)) = None
   \<and> cleanup (idle_server ocr_partial_disk) = run 300000 [] (initial ocr_partial_disk)
   \<and> deletionTimers
        (cleanup (executeTask 300000 5000 ''/app/uploads'' ocr_options tesseract_missing
                    (idle_server ocr_partial_disk)))
        (path_join ''/app/uploads'' (outputFilename ocr_options)) \<noteq> None
   \<and> pending
        (cleanup (executeTask 300000 5000 ''/app/uploads'' ocr_options tesseract_missing
                    (idle_server ocr_partial_disk)))
        (path_join ''/app/uploads'' (outputFilename ocr_options)) 305000
   \<and> path_join ''/app/uploads'' (outputFilename ocr_options)
        \<in> set (map timeout_path (timeouts
              (cleanup (executeTask 300000 5000 ''/app/uploads'' ocr_options tesseract_missing
                          (idle_server ocr_partial_disk)))))
   \<and> disk ocr_output_scheduled (path_join ''/app/uploads'' (outputFilename ocr_options)) \<noteq> None
   \<and> pending ocr_output_scheduled (path_join ''/app/uploads'' (outputFilename ocr_options)) 301000
   \<and> pending
        (cleanup (executeTask 300000 5000 ''/app/uploads'' ocr_options tesseract_missing
                    \<lparr>cleanup = ocr_output_scheduled, emitted = [], response = None\<rparr>))
        (path_join ''/app/uploads'' (outputFilename ocr_options)) 301000"
proof -
  let ?out = "path_join ''/app/uploads'' (outputFilename ocr_options)"
  let ?busy = "\<lparr>cleanup = ocr_output_scheduled, emitted = [], response = None\<rparr>"
  have out: "?out = ''/app/uploads/ocr_42.txt''"
    by (simp add: ocr_options_def path_join_def)
  have h1: "exitCode tesseract_missing \<noteq> Some 0"
    by (simp add: tesseract_missing_def)
  have h2: "disk (cleanup (idle_server ocr_partial_disk)) ?out \<noteq> None"
    and h3: "deletionTimers (cleanup (idle_server ocr_partial_disk)) ?out = None"
    and h4: "cleanup (idle_server ocr_partial_disk) = run 300000 [] (initial ocr_partial_disk)"
    and h5: "unlinking (cleanup (idle_server ocr_partial_disk)) = []"
    by (simp_all add: out idle_server_def initial_def ocr_partial_disk_def run_def)
  have g2: "disk (cleanup ?busy) ?out \<noteq> None"
    and g3: "pending (cleanup ?busy) ?out 301000"
    by (simp_all add: out ocr_output_scheduled_def run_def initial_def scheduleDeletion_def
        ocr_partial_disk_def pending_def)
  note T1 = failed_task_schedules_existing_output
    [OF h1 h2, where ttl = 300000 and now = 5000 and evs = "[]" and d = ocr_partial_disk]
  note T2 = failed_task_schedules_existing_output
    [OF h1 g2, where ttl = 300000 and now = 5000 and due = 301000]
  have a: "deletionTimers
        (cleanup (executeTask 300000 5000 ''/app/uploads'' ocr_options tesseract_missing
                    (idle_server ocr_partial_disk))) ?out \<noteq> None"
    using T1 by blast
  have b: "pending
        (cleanup (executeTask 300000 5000 ''/app/uploads'' ocr_options tesseract_missing
                    (idle_server ocr_partial_disk))) ?out (5000 + 300000)"
    using T1 h3 by blast
  have c: "?out \<in> set (map timeout_path (timeouts
              (cleanup (executeTask 300000 5000 ''/app/uploads'' ocr_options tesseract_missing
                          (idle_server ocr_partial_disk)))))"
    using T1 h4 h5 by auto
  have e: "pending (cleanup (executeTask 300000 5000 ''/app/uploads'' ocr_options tesseract_missing ?busy))
             ?out 301000"
    using T2 g3 by blast
  from g2 g3 have g2': "disk ocr_output_scheduled ?out \<noteq> None"
    and g3': "pending ocr_output_scheduled ?out 301000"
    by simp_all
  from b have b': "pending
        (cleanup (executeTask 300000 5000 ''/app/uploads'' ocr_options tesseract_missing
                    (idle_server ocr_partial_disk))) ?out 305000"
    by simp
  from h1 h2 h3 h4 a b' c g2' g3' e show ?thesis by blast
qed

section \<open>A failed engine run\<close>



lemma queue_add_first_prop:
  "\<exists>j. queue (queue_add n ((k, Some v) # props) g) = queue g @ [j] \<and> jobData j k = Some v"
  by (simp add: queue_add_def)

lemma queue_add_with_first_prop:
  "\<exists>j. queue (queue_add_with n ((k, Some v) # props) ps paths g) = queue g @ [j]
        \<and> jobData j k = Some v"
  by (simp add: queue_add_with_def)












end
